theory Spec2Isabelle
  imports Main "HOL-Library.Word"
begin

section \<open>unarch: format detection and extraction dispatch\<close>

text \<open>
  A shallow embedding of \<^verbatim>\<open>main.go\<close> (the current revision, the one with zstd and
  single-file support). The functions of the program keep their names. The Go standard
  library and the third-party decoders are not part of the repository: the path functions
  of \<^verbatim>\<open>path/filepath\<close> and the file operations of \<^verbatim>\<open>os\<close> are modelled after their
  documented behaviour on Unix, and the decoders, the archive readers and the external
  commands are parameters of the model (record \<open>lib\<close>).
\<close>

subsection \<open>Bytes and errors\<close>

type_synonym byte = "8 word"

datatype errno = ENOENT | ENOTDIR | EISDIR

text \<open>
  Go's \<^verbatim>\<open>error\<close> values: \<open>EOF\<close> is \<^verbatim>\<open>io.EOF\<close>, \<open>Errorf s\<close> is \<^verbatim>\<open>fmt.Errorf(s)\<close>,
  \<open>OsError\<close> is an error of a system call, \<open>LibError\<close> an error of a decoder, of an
  archive reader or of an external command, with its message. \<open>Error\<close> is the method
  \<^verbatim>\<open>Error()\<close>; for a system call it gives the text of the error number, without the
  operation and the path that Go puts in front of it.
\<close>

datatype error = EOF | Errorf string | OsError errno | LibError string

fun errno_text :: "errno \<Rightarrow> string" where
  "errno_text ENOENT = ''no such file or directory''"
| "errno_text ENOTDIR = ''not a directory''"
| "errno_text EISDIR = ''is a directory''"

fun Error :: "error \<Rightarrow> string" where
  "Error EOF = ''EOF''"
| "Error (Errorf s) = s"
| "Error (OsError e) = errno_text e"
| "Error (LibError s) = s"

subsection \<open>\<^verbatim>\<open>bytes.HasPrefix\<close>\<close>

text \<open>\<^verbatim>\<open>len(s) >= len(prefix) && Equal(s[:len(prefix)], prefix)\<close>\<close>

definition HasPrefix :: "byte list \<Rightarrow> byte list \<Rightarrow> bool" where
  "HasPrefix s pre = (length pre \<le> length s \<and> take (length pre) s = pre)"

subsection \<open>\<^verbatim>\<open>path/filepath\<close> on Unix\<close>

text \<open>
  \<^verbatim>\<open>filepath.Ext\<close>: scan from the end while the byte is not a separator; at the first dot
  return the suffix that starts there; the empty string when no dot is found in the last
  element. \<open>ext_scan\<close> walks the reversed path and collects the bytes passed so far.
\<close>

fun ext_scan :: "string \<Rightarrow> string \<Rightarrow> string" where
  "ext_scan [] acc = []"
| "ext_scan (c # rs) acc =
     (if c = CHR ''/'' then []
      else if c = CHR ''.'' then c # acc
      else ext_scan rs (c # acc))"

definition Ext :: "string \<Rightarrow> string" where
  "Ext path = ext_scan (rev path) []"

text \<open>The elements of a path: the pieces between separators (empty pieces included).\<close>

primrec split_path :: "string \<Rightarrow> string list" where
  "split_path [] = [[]]"
| "split_path (c # cs) =
     (if c = CHR ''/'' then [] # split_path cs
      else (case split_path cs of [] \<Rightarrow> [[c]] | x # xs \<Rightarrow> (c # x) # xs))"

text \<open>
  \<^verbatim>\<open>filepath.Clean\<close> processes the elements from left to right. \<open>out\<close> is the output so
  far, last element first. An empty element and \<^verbatim>\<open>.\<close> are dropped; \<^verbatim>\<open>..\<close> removes the last
  element of the output when there is one that is not itself \<^verbatim>\<open>..\<close>, is dropped at the
  root of a rooted path, and is kept otherwise; any other element is appended.
\<close>

definition clean_step :: "bool \<Rightarrow> string list \<Rightarrow> string \<Rightarrow> string list" where
  "clean_step rooted out e =
     (if e = [] \<or> e = ''.'' then out
      else if e = ''..'' then
        (case out of
           [] \<Rightarrow> (if rooted then [] else [''..''])
         | t # ts \<Rightarrow> (if t = ''..'' then ''..'' # out else ts))
      else e # out)"

text \<open>A cleaned path as data: whether it is rooted, and its elements in order.\<close>

type_synonym key = "bool \<times> string list"

definition clean_key :: "string \<Rightarrow> key" where
  "clean_key path =
     (let rooted = (path \<noteq> [] \<and> hd path = CHR ''/'')
      in (rooted, rev (foldl (clean_step rooted) [] (split_path path))))"

fun join_sep :: "string list \<Rightarrow> string" where
  "join_sep [] = []"
| "join_sep [e] = e"
| "join_sep (e # es) = e @ ''/'' @ join_sep es"

definition render :: "key \<Rightarrow> string" where
  "render k =
     (if fst k then CHR ''/'' # join_sep (snd k)
      else if snd k = [] then ''.'' else join_sep (snd k))"

definition Clean :: "string \<Rightarrow> string" where
  "Clean path = render (clean_key path)"

text \<open>
  \<^verbatim>\<open>filepath.Join\<close> of two elements: the elements from the first non-empty one on are
  joined with a separator and cleaned; the empty string when both are empty.
\<close>

definition Join :: "string \<Rightarrow> string \<Rightarrow> string" where
  "Join a b =
     (if a \<noteq> [] then Clean (a @ ''/'' @ b)
      else if b \<noteq> [] then Clean b
      else [])"

text \<open>
  \<^verbatim>\<open>filepath.Dir\<close>: everything up to and including the last separator, cleaned.
\<close>

definition Dir :: "string \<Rightarrow> string" where
  "Dir path = Clean (rev (dropWhile (\<lambda>c. c \<noteq> CHR ''/'') (rev path)))"

text \<open>
  \<^verbatim>\<open>filepath.Base\<close>: \<^verbatim>\<open>.\<close> for the empty path; otherwise trailing separators are
  stripped and the last element is returned; a path of separators only gives \<^verbatim>\<open>/\<close>.
\<close>

definition Base :: "string \<Rightarrow> string" where
  "Base path =
     (if path = [] then ''.''
      else
        (let p1 = dropWhile (\<lambda>c. c = CHR ''/'') (rev path);
             p2 = rev (takeWhile (\<lambda>c. c \<noteq> CHR ''/'') p1)
         in if p2 = [] then ''/'' else p2))"

subsection \<open>The file system\<close>

text \<open>
  A file is its permission bits (the \<^verbatim>\<open>FileMode\<close> it was created with, before the
  process umask) and its bytes. Paths are resolved lexically (no symbolic links), so a
  node is addressed by its cleaned path. The directories \<^verbatim>\<open>.\<close>, \<^verbatim>\<open>/\<close>, \<^verbatim>\<open>..\<close>,
  \<^verbatim>\<open>../..\<close> and so on always exist. System calls fail for structural reasons only:
  there are no permissions, quotas or device errors in the model.
\<close>

type_synonym FileMode = "32 word"

datatype node = Directory | File FileMode "byte list"

type_synonym fsys = "key \<Rightarrow> node option"

definition lookup :: "fsys \<Rightarrow> key \<Rightarrow> node option" where
  "lookup fs k = (if list_all (\<lambda>e. e = ''..'') (snd k) then Some Directory else fs k)"

text \<open>\<^verbatim>\<open>os.Open\<close>: the node the path names.\<close>

definition os_Open :: "fsys \<Rightarrow> string \<Rightarrow> error + node" where
  "os_Open fs path =
     (if path = [] then Inl (OsError ENOENT)
      else (case lookup fs (clean_key path) of
              None \<Rightarrow> Inl (OsError ENOENT)
            | Some n \<Rightarrow> Inr n))"

text \<open>
  \<^verbatim>\<open>f.Read(buf)\<close> at offset 0 with \<^verbatim>\<open>buf := make([]byte, n)\<close>: the buffer afterwards
  (the bytes read, then the zeros the buffer was made with), the count, and the error:
  \<^verbatim>\<open>io.EOF\<close> when nothing could be read from a file, \<^verbatim>\<open>EISDIR\<close> for a directory.
\<close>

fun Read :: "nat \<Rightarrow> node \<Rightarrow> byte list \<times> nat \<times> error option" where
  "Read n (File m c) =
     (take n c @ replicate (n - length c) 0, min n (length c),
      if c = [] \<and> 0 < n then Some EOF else None)"
| "Read n Directory = (replicate n 0, 0, Some (OsError EISDIR))"

subsection \<open>\<^verbatim>\<open>detectArchiveType\<close>\<close>

text \<open>The \<^verbatim>\<open>switch ext\<close> in the default case of \<^verbatim>\<open>detectArchiveType\<close>.\<close>

definition ext_switch :: "string \<Rightarrow> error + string" where
  "ext_switch ext =
     (if ext = ''.gz'' then Inr ''gz''
      else if ext = ''.bz2'' then Inr ''bz2''
      else if ext = ''.xz'' then Inr ''xz''
      else if ext = ''.lz'' then Inr ''lz''
      else if ext = ''.lzma'' then Inr ''lzma''
      else if ext = ''.zst'' then Inr ''zst''
      else if ext = ''.tar'' then Inr ''tar''
      else if ext = ''.tar.lz'' then Inr ''tar.lz''
      else if ext = ''.tar.lzma'' then Inr ''tar.lzma''
      else Inl (Errorf ''unknown archive type''))"

text \<open>The outer \<^verbatim>\<open>switch\<close>, on the buffer that was read.\<close>

definition magic_switch :: "byte list \<Rightarrow> string \<Rightarrow> error + string" where
  "magic_switch buf filePath =
     (if HasPrefix buf [0x50, 0x4B] then Inr ''zip''
      else if HasPrefix buf [0x1F, 0x8B] then Inr ''tar.gz''
      else if HasPrefix buf [0x42, 0x5A, 0x68] then Inr ''tar.bz2''
      else if HasPrefix buf [0xFD, 0x37, 0x7A, 0x58, 0x5A, 0x00] then Inr ''tar.xz''
      else if HasPrefix buf [0x52, 0x61, 0x72, 0x21] then Inr ''rar''
      else if HasPrefix buf [0x37, 0x7A, 0xBC, 0xAF, 0x27, 0x1C] then Inr ''7z''
      else if HasPrefix buf [0x28, 0xB5, 0x2F, 0xFD] then Inr ''tar.zst''
      else ext_switch (Ext filePath))"

definition detectArchiveType :: "fsys \<Rightarrow> string \<Rightarrow> error + string" where
  "detectArchiveType fs filePath =
     (case os_Open fs filePath of
        Inl err \<Rightarrow> Inl err
      | Inr f \<Rightarrow>
         (case Read 16 f of (buf, n, err) \<Rightarrow>
            if err \<noteq> None \<and> err \<noteq> Some EOF then Inl (the err)
            else magic_switch buf filePath))"

subsection \<open>Creating directories and files\<close>

text \<open>
  \<^verbatim>\<open>os.MkdirAll\<close>: every element of the path, outermost first, is left alone when it is a
  directory, created when it is missing, and stops the call with \<^verbatim>\<open>ENOTDIR\<close> when it is
  a file. \<open>done\<close> holds the elements already passed. The permission argument only
  matters under a umask and is not recorded.
\<close>

fun mkdir_chain :: "fsys \<Rightarrow> bool \<Rightarrow> string list \<Rightarrow> string list \<Rightarrow> error option \<times> fsys" where
  "mkdir_chain fs r done [] = (None, fs)"
| "mkdir_chain fs r done (e # es) =
     (case lookup fs (r, done @ [e]) of
        Some Directory \<Rightarrow> mkdir_chain fs r (done @ [e]) es
      | Some (File m c) \<Rightarrow> (Some (OsError ENOTDIR), fs)
      | None \<Rightarrow> mkdir_chain (fs((r, done @ [e]) \<mapsto> Directory)) r (done @ [e]) es)"

definition MkdirAll :: "fsys \<Rightarrow> string \<Rightarrow> FileMode \<Rightarrow> error option \<times> fsys" where
  "MkdirAll fs path perm =
     (if path = [] then (Some (OsError ENOENT), fs)
      else mkdir_chain fs (fst (clean_key path)) [] (snd (clean_key path)))"

definition ModePerm :: FileMode where
  "ModePerm = 0x1FF"

definition ModeDir :: FileMode where
  "ModeDir = 0x80000000"

text \<open>\<^verbatim>\<open>FileMode.IsDir\<close>: \<^verbatim>\<open>m&ModeDir != 0\<close>\<close>

definition IsDir :: "FileMode \<Rightarrow> bool" where
  "IsDir m = (and m ModeDir \<noteq> 0)"

text \<open>
  \<^verbatim>\<open>os.OpenFile(name, O_WRONLY|O_CREATE|O_TRUNC, perm)\<close>: the parent must be a
  directory; a directory cannot be opened for writing; an existing file is truncated and
  keeps its mode; a missing file is created empty with mode \<open>perm\<close>.
\<close>

definition os_OpenFile :: "fsys \<Rightarrow> string \<Rightarrow> FileMode \<Rightarrow> error + fsys" where
  "os_OpenFile fs name perm =
     (if name = [] then Inl (OsError ENOENT)
      else
        (let k = clean_key name in
         case lookup fs (fst k, butlast (snd k)) of
           None \<Rightarrow> Inl (OsError ENOENT)
         | Some (File m c) \<Rightarrow> Inl (OsError ENOTDIR)
         | Some Directory \<Rightarrow>
            (case lookup fs k of
               Some Directory \<Rightarrow> Inl (OsError EISDIR)
             | Some (File m c) \<Rightarrow> Inr (fs(k \<mapsto> File m []))
             | None \<Rightarrow> Inr (fs(k \<mapsto> File perm [])))))"

text \<open>\<^verbatim>\<open>os.Create(name)\<close> is \<^verbatim>\<open>OpenFile(name, O_RDWR|O_CREATE|O_TRUNC, 0666)\<close>.\<close>

definition os_Create :: "fsys \<Rightarrow> string \<Rightarrow> error + fsys" where
  "os_Create fs name = os_OpenFile fs name 0x1B6"

text \<open>
  A reader: the bytes it delivers and the error its last read ends with (\<open>None\<close> for a
  clean end of input). A file opened for reading is the reader of its bytes; reading a
  directory fails.
\<close>

type_synonym reader = "byte list \<times> error option"

fun file_reader :: "node \<Rightarrow> reader" where
  "file_reader (File m c) = (c, None)"
| "file_reader Directory = ([], Some (OsError EISDIR))"

text \<open>Writing through the descriptor of a file that was just created or truncated.\<close>

definition write_file :: "fsys \<Rightarrow> string \<Rightarrow> byte list \<Rightarrow> fsys" where
  "write_file fs name bs =
     (case fs (clean_key name) of
        Some (File m c) \<Rightarrow> fs(clean_key name \<mapsto> File m (c @ bs))
      | _ \<Rightarrow> fs)"

text \<open>
  \<^verbatim>\<open>io.Copy(outFile, r)\<close>: everything the reader delivers is written; the result is the
  reader's error.
\<close>

definition io_Copy :: "fsys \<Rightarrow> string \<Rightarrow> reader \<Rightarrow> fsys \<times> error option" where
  "io_Copy fs name r = (write_file fs name (fst r), snd r)"

subsection \<open>The libraries and the external commands\<close>

record tar_Header =
  Name :: string
  Typeflag :: byte
  Mode :: "64 word"

definition TypeReg :: byte where
  "TypeReg = 0x30"

definition TypeDir :: byte where
  "TypeDir = 0x35"

text \<open>
  What \<^verbatim>\<open>tr.Next()\<close> returns, call after call: an entry (its header, the bytes of its
  body that can be read, and the error that reading the body ends with), or an error. The
  end of the list is \<^verbatim>\<open>io.EOF\<close>.
\<close>

datatype tar_next = Entry tar_Header "byte list" "error option" | Broken error

text \<open>
  An entry of \<^verbatim>\<open>r.File\<close>: \<open>zMode\<close> is \<^verbatim>\<open>f.Mode()\<close> (also behind
  \<^verbatim>\<open>f.FileInfo().IsDir()\<close>), \<open>zOpen\<close> is \<^verbatim>\<open>f.Open()\<close>.
\<close>

record zip_File =
  zName :: string
  zMode :: FileMode
  zOpen :: "error + reader"

text \<open>
  \<open>cmd_Run name args fs\<close> runs an external command to its end: the bytes it wrote to its
  standard output, the file system it leaves, and the error of \<^verbatim>\<open>cmd.Run()\<close>.
\<close>

record lib =
  gzip_NewReader :: "reader \<Rightarrow> error + reader"
  bzip2_NewReader :: "reader \<Rightarrow> reader"
  xz_NewReader :: "reader \<Rightarrow> error + reader"
  zstd_NewReader :: "reader \<Rightarrow> error + reader"
  tar_NewReader :: "reader \<Rightarrow> tar_next list"
  zip_OpenReader :: "fsys \<Rightarrow> string \<Rightarrow> error + zip_File list"
  cmd_Run :: "string \<Rightarrow> string list \<Rightarrow> fsys \<Rightarrow> byte list \<times> fsys \<times> error option"

subsection \<open>\<^verbatim>\<open>unzip\<close>\<close>

fun unzip_loop :: "string \<Rightarrow> zip_File list \<Rightarrow> fsys \<Rightarrow> error option \<times> fsys" where
  "unzip_loop dest [] fs = (None, fs)"
| "unzip_loop dest (f # rest) fs =
     (let fpath = Join dest (zName f) in
      if IsDir (zMode f) then unzip_loop dest rest (snd (MkdirAll fs fpath ModePerm))
      else
        (let fs1 = snd (MkdirAll fs (Dir fpath) ModePerm) in
         case os_OpenFile fs1 fpath (zMode f) of
           Inl err \<Rightarrow> (Some err, fs1)
         | Inr fs2 \<Rightarrow>
            (case zOpen f of
               Inl err \<Rightarrow> (Some err, fs2)
             | Inr rc \<Rightarrow>
                (case io_Copy fs2 fpath rc of (fs3, err) \<Rightarrow>
                   if err \<noteq> None then (err, fs3)
                   else unzip_loop dest rest fs3))))"

definition unzip :: "lib \<Rightarrow> fsys \<Rightarrow> string \<Rightarrow> string \<Rightarrow> error option \<times> fsys" where
  "unzip L fs src dest =
     (case zip_OpenReader L fs src of
        Inl err \<Rightarrow> (Some err, fs)
      | Inr r \<Rightarrow> unzip_loop dest r fs)"

subsection \<open>\<^verbatim>\<open>untar\<close>\<close>

fun untar_loop :: "string \<Rightarrow> tar_next list \<Rightarrow> fsys \<Rightarrow> error option \<times> fsys" where
  "untar_loop dest [] fs = (None, fs)"
| "untar_loop dest (Broken err # rest) fs =
     (if err = EOF then (None, fs) else (Some err, fs))"
| "untar_loop dest (Entry header body rerr # rest) fs =
     (let target = Join dest (Name header) in
      if Typeflag header = TypeDir then
        untar_loop dest rest (snd (MkdirAll fs target ModePerm))
      else if Typeflag header = TypeReg then
        (let fs1 = snd (MkdirAll fs (Dir target) ModePerm) in
         case os_Create fs1 target of
           Inl err \<Rightarrow> (Some err, fs1)
         | Inr fs2 \<Rightarrow>
            (case io_Copy fs2 target (body, rerr) of (fs3, err) \<Rightarrow>
               if err \<noteq> None then (err, fs3)
               else untar_loop dest rest fs3))
      else untar_loop dest rest fs)"

definition untar :: "lib \<Rightarrow> fsys \<Rightarrow> string \<Rightarrow> string \<Rightarrow> error option \<times> fsys" where
  "untar L fs src dest =
     (case os_Open fs src of
        Inl err \<Rightarrow> (Some err, fs)
      | Inr f \<Rightarrow>
         (case Read 6 f of (buf, n, rerr) \<Rightarrow>
            if HasPrefix buf [0x1F, 0x8B] then
              (case gzip_NewReader L (file_reader f) of
                 Inl err \<Rightarrow> (Some err, fs)
               | Inr gr \<Rightarrow> untar_loop dest (tar_NewReader L gr) fs)
            else if HasPrefix buf [0x42, 0x5A, 0x68] then
              untar_loop dest (tar_NewReader L (bzip2_NewReader L (file_reader f))) fs
            else if HasPrefix buf [0xFD, 0x37, 0x7A, 0x58, 0x5A, 0x00] then
              (case xz_NewReader L (file_reader f) of
                 Inl err \<Rightarrow> (Some err, fs)
               | Inr xzr \<Rightarrow> untar_loop dest (tar_NewReader L xzr) fs)
            else if HasPrefix buf [0x28, 0xB5, 0x2F, 0xFD] then
              (case zstd_NewReader L (file_reader f) of
                 Inl err \<Rightarrow> (Some err, fs)
               | Inr zr \<Rightarrow> untar_loop dest (tar_NewReader L zr) fs)
            else untar_loop dest (tar_NewReader L (file_reader f)) fs))"

subsection \<open>\<^verbatim>\<open>extractSingleFile\<close> and \<^verbatim>\<open>extractWith7z\<close>\<close>

text \<open>The world of a run: the file system and the commands run so far, oldest first.\<close>

record world =
  files :: fsys
  procs :: "(string \<times> string list) list"

definition extractSingleFile :: "lib \<Rightarrow> world \<Rightarrow> string \<Rightarrow> string \<Rightarrow> string \<Rightarrow> error option \<times> world" where
  "extractSingleFile L w src dest typ =
     (case (if typ = ''gz'' then Some ''gunzip''
            else if typ = ''bz2'' then Some ''bunzip2''
            else if typ = ''xz'' then Some ''unxz''
            else if typ = ''zst'' then Some ''unzstd''
            else None) of
        None \<Rightarrow> (Some (Errorf ''unsupported single file compression type''), w)
      | Some tool \<Rightarrow>
         (let outPath = Join dest (Base src) in
          case os_Create (files w) outPath of
            Inl err \<Rightarrow> (Some err, w)
          | Inr fs1 \<Rightarrow>
             (case cmd_Run L tool [''-k'', ''-c'', src] fs1 of (out, fs2, err) \<Rightarrow>
                (err, \<lparr>files = write_file fs2 outPath out,
                       procs = procs w @ [(tool, [''-k'', ''-c'', src])]\<rparr>))))"

text \<open>The output of \<^verbatim>\<open>7z\<close> goes to the terminal and is not recorded.\<close>

definition extractWith7z :: "lib \<Rightarrow> world \<Rightarrow> string \<Rightarrow> string \<Rightarrow> error option \<times> world" where
  "extractWith7z L w src dest =
     (case cmd_Run L ''7z'' [''x'', src, ''-o'' @ dest, ''-y''] (files w) of (out, fs', err) \<Rightarrow>
        (err, \<lparr>files = fs', procs = procs w @ [(''7z'', [''x'', src, ''-o'' @ dest, ''-y''])]\<rparr>))"

subsection \<open>\<^verbatim>\<open>main\<close>\<close>

text \<open>
  The \<^verbatim>\<open>switch archiveType\<close> of \<^verbatim>\<open>main\<close>: \<open>None\<close> is its default case, otherwise the
  error of the strategy and the world it leaves.
\<close>

definition main_switch :: "lib \<Rightarrow> world \<Rightarrow> string \<Rightarrow> string \<Rightarrow> string \<Rightarrow> (error option \<times> world) option" where
  "main_switch L w archiveType archivePath destDir =
     (if archiveType = ''zip'' then
        (case unzip L (files w) archivePath destDir of (err, fs') \<Rightarrow> Some (err, w\<lparr>files := fs'\<rparr>))
      else if archiveType \<in> set [''tar'', ''tar.gz'', ''tar.bz2'', ''tar.xz'', ''tar.lz'', ''tar.lzma'', ''tar.zst''] then
        (case untar L (files w) archivePath destDir of (err, fs') \<Rightarrow> Some (err, w\<lparr>files := fs'\<rparr>))
      else if archiveType \<in> set [''gz'', ''bz2'', ''xz'', ''lz'', ''lzma'', ''zst''] then
        Some (extractSingleFile L w archivePath destDir archiveType)
      else if archiveType \<in> set [''7z'', ''rar''] then
        Some (extractWith7z L w archivePath destDir)
      else None)"

text \<open>
  \<^verbatim>\<open>main\<close> on \<^verbatim>\<open>os.Args\<close>: the exit code, the lines it prints, and the world it leaves.
\<close>

definition main :: "lib \<Rightarrow> world \<Rightarrow> string list \<Rightarrow> nat \<times> string list \<times> world" where
  "main L w Args =
     (if length Args < 2 then (1, [''usage: unarch <archive_file> [destination].''], w)
      else
        (let archivePath = Args ! 1;
             destDir = (if 3 \<le> length Args then Args ! 2 else ''.'')
         in case detectArchiveType (files w) archivePath of
              Inl err \<Rightarrow> (1, [''error detecting archive type: '' @ Error err], w)
            | Inr archiveType \<Rightarrow>
               (case main_switch L w archiveType archivePath destDir of
                  None \<Rightarrow> (1, [''unsupported archive type.''], w)
                | Some (Some err, w') \<Rightarrow> (1, [''extraction error: '' @ Error err], w')
                | Some (None, w') \<Rightarrow> (0, [''extraction complete.''], w'))))"

subsection \<open>Notions the properties are stated with\<close>

text \<open>
  A path lies under a root directory when, both cleaned, they agree on being rooted and
  the elements of the root are the first elements of the path.
\<close>

definition under_root :: "string \<Rightarrow> string \<Rightarrow> bool" where
  "under_root root path =
     (fst (clean_key path) = fst (clean_key root) \<and>
      length (snd (clean_key root)) \<le> length (snd (clean_key path)) \<and>
      take (length (snd (clean_key root))) (snd (clean_key path)) = snd (clean_key root))"

text \<open>The same stream of tar entries with other permission bits in the headers.\<close>

fun with_mode :: "(tar_Header \<Rightarrow> 64 word) \<Rightarrow> tar_next \<Rightarrow> tar_next" where
  "with_mode g (Entry header body rerr) = Entry (header\<lparr>Mode := g header\<rparr>) body rerr"
| "with_mode g (Broken err) = Broken err"

text \<open>
  An instance of the libraries for concrete runs: gzip, bzip2 and zstd streams are
  stored, xz streams are rejected, a tar stream is one regular file \<^verbatim>\<open>a.txt\<close> that
  holds the whole stream, a zip archive is empty, and every command prints \<^verbatim>\<open>hi\<close> and
  leaves the files alone.
\<close>

definition toy_lib :: lib where
  "toy_lib =
     \<lparr>gzip_NewReader = (\<lambda>r. Inr r),
      bzip2_NewReader = (\<lambda>r. r),
      xz_NewReader = (\<lambda>r. Inl (LibError ''xz: invalid header'')),
      zstd_NewReader = (\<lambda>r. Inr r),
      tar_NewReader = (\<lambda>r. [Entry \<lparr>Name = ''a.txt'', Typeflag = TypeReg, Mode = 0x1A4\<rparr> (fst r) (snd r)]),
      zip_OpenReader = (\<lambda>fs src. Inr []),
      cmd_Run = (\<lambda>name args fs. ([0x68, 0x69], fs, None))\<rparr>"

text \<open>A file system with one file of the given name and bytes in the working directory.\<close>

definition one_file :: "string \<Rightarrow> byte list \<Rightarrow> fsys" where
  "one_file name bs = Map.empty((False, [name]) \<mapsto> File 0x1A4 bs)"

section \<open>Properties\<close>

subsection \<open>Prefixes and the buffer\<close>

lemma HasPrefix_Nil [simp]: "HasPrefix s [] = True"
  by (simp add: HasPrefix_def)

lemma HasPrefix_Nil_Cons [simp]: "HasPrefix [] (p # ps) = False"
  by (simp add: HasPrefix_def)

lemma HasPrefix_Cons [simp]: "HasPrefix (x # xs) (p # ps) = (x = p \<and> HasPrefix xs ps)"
  by (auto simp add: HasPrefix_def)

lemma HasPrefix_buffer:
  "HasPrefix c p \<Longrightarrow> length p \<le> n \<Longrightarrow> HasPrefix (take n c @ replicate (n - length c) 0) p"
  by (auto simp add: HasPrefix_def min_def)

lemma HasPrefix_first: "HasPrefix s (p # ps) \<Longrightarrow> HasPrefix s (q # qs) \<Longrightarrow> p = q"
  by (cases s) auto

lemma detect_File:
  "os_Open fs path = Inr (File m c) \<Longrightarrow>
   detectArchiveType fs path = magic_switch (take 16 c @ replicate (16 - length c) 0) path"
  by (simp add: detectArchiveType_def)

lemma os_Open_one_file:
  "name \<noteq> [] \<Longrightarrow> clean_key name = (False, [name]) \<Longrightarrow> name \<noteq> ''..'' \<Longrightarrow>
   os_Open (one_file name bs) name = Inr (File 0x1A4 bs)"
  by (simp add: os_Open_def lookup_def one_file_def)

subsection \<open>Classification by signature\<close>

lemma detect_by_signature:
  assumes "os_Open fs path = Inr (File m c)"
    and "HasPrefix c sig" and "length sig \<le> 16"
  shows "sig = [0x50, 0x4B] \<Longrightarrow> detectArchiveType fs path = Inr ''zip''"
    and "sig = [0x1F, 0x8B] \<Longrightarrow> detectArchiveType fs path = Inr ''tar.gz''"
    and "sig = [0x42, 0x5A, 0x68] \<Longrightarrow> detectArchiveType fs path = Inr ''tar.bz2''"
    and "sig = [0xFD, 0x37, 0x7A, 0x58, 0x5A, 0x00] \<Longrightarrow> detectArchiveType fs path = Inr ''tar.xz''"
    and "sig = [0x52, 0x61, 0x72, 0x21] \<Longrightarrow> detectArchiveType fs path = Inr ''rar''"
    and "sig = [0x37, 0x7A, 0xBC, 0xAF, 0x27, 0x1C] \<Longrightarrow> detectArchiveType fs path = Inr ''7z''"
    and "sig = [0x28, 0xB5, 0x2F, 0xFD] \<Longrightarrow> detectArchiveType fs path = Inr ''tar.zst''"
proof -
  define B where "B = take 16 c @ replicate (16 - length c) (0::byte)"
  have buf: "HasPrefix B sig"
    unfolding B_def using HasPrefix_buffer [OF assms(2,3)] .
  have no: "\<And>p ps q qs. sig = p # ps \<Longrightarrow> p \<noteq> q \<Longrightarrow> \<not> HasPrefix B (q # qs)"
    using buf HasPrefix_first by blast
  have d: "detectArchiveType fs path = magic_switch B path"
    unfolding B_def by (rule detect_File [OF assms(1)])
  show "sig = [0x50, 0x4B] \<Longrightarrow> detectArchiveType fs path = Inr ''zip''"
    using buf by (simp add: d magic_switch_def)
  show "sig = [0x1F, 0x8B] \<Longrightarrow> detectArchiveType fs path = Inr ''tar.gz''"
    using buf no [of "0x1F" _ "0x50"] by (simp add: d magic_switch_def)
  show "sig = [0x42, 0x5A, 0x68] \<Longrightarrow> detectArchiveType fs path = Inr ''tar.bz2''"
    using buf no [of "0x42" _ "0x50"] no [of "0x42" _ "0x1F"] by (simp add: d magic_switch_def)
  show "sig = [0xFD, 0x37, 0x7A, 0x58, 0x5A, 0x00] \<Longrightarrow> detectArchiveType fs path = Inr ''tar.xz''"
    using buf no [of "0xFD" _ "0x50"] no [of "0xFD" _ "0x1F"] no [of "0xFD" _ "0x42"]
    by (simp add: d magic_switch_def)
  show "sig = [0x52, 0x61, 0x72, 0x21] \<Longrightarrow> detectArchiveType fs path = Inr ''rar''"
    using buf no [of "0x52" _ "0x50"] no [of "0x52" _ "0x1F"] no [of "0x52" _ "0x42"]
      no [of "0x52" _ "0xFD"] by (simp add: d magic_switch_def)
  show "sig = [0x37, 0x7A, 0xBC, 0xAF, 0x27, 0x1C] \<Longrightarrow> detectArchiveType fs path = Inr ''7z''"
    using buf no [of "0x37" _ "0x50"] no [of "0x37" _ "0x1F"] no [of "0x37" _ "0x42"]
      no [of "0x37" _ "0xFD"] no [of "0x37" _ "0x52"] by (simp add: d magic_switch_def)
  show "sig = [0x28, 0xB5, 0x2F, 0xFD] \<Longrightarrow> detectArchiveType fs path = Inr ''tar.zst''"
    using buf no [of "0x28" _ "0x50"] no [of "0x28" _ "0x1F"] no [of "0x28" _ "0x42"]
      no [of "0x28" _ "0xFD"] no [of "0x28" _ "0x52"] no [of "0x28" _ "0x37"]
    by (simp add: d magic_switch_def)
qed

text \<open>
  C1. Whenever the bytes of the file start with one of the seven signatures,
  \<open>detectArchiveType\<close> returns the tag of that signature, whatever bytes follow and
  whatever the name of the file is: the extension is not looked at.
\<close>

theorem detect_signature_tag:
  assumes "os_Open fs path = Inr (File m c)"
    and "(sig, tag) \<in> set
          [([0x50, 0x4B], ''zip''),
           ([0x1F, 0x8B], ''tar.gz''),
           ([0x42, 0x5A, 0x68], ''tar.bz2''),
           ([0xFD, 0x37, 0x7A, 0x58, 0x5A, 0x00], ''tar.xz''),
           ([0x52, 0x61, 0x72, 0x21], ''rar''),
           ([0x37, 0x7A, 0xBC, 0xAF, 0x27, 0x1C], ''7z''),
           ([0x28, 0xB5, 0x2F, 0xFD], ''tar.zst'')]"
    and "HasPrefix c sig"
  shows "detectArchiveType fs path = Inr tag"
proof -
  have cases: "sig = [0x50, 0x4B] \<and> tag = ''zip''
      \<or> sig = [0x1F, 0x8B] \<and> tag = ''tar.gz''
      \<or> sig = [0x42, 0x5A, 0x68] \<and> tag = ''tar.bz2''
      \<or> sig = [0xFD, 0x37, 0x7A, 0x58, 0x5A, 0x00] \<and> tag = ''tar.xz''
      \<or> sig = [0x52, 0x61, 0x72, 0x21] \<and> tag = ''rar''
      \<or> sig = [0x37, 0x7A, 0xBC, 0xAF, 0x27, 0x1C] \<and> tag = ''7z''
      \<or> sig = [0x28, 0xB5, 0x2F, 0xFD] \<and> tag = ''tar.zst''"
    using assms(2) by (simp only: list.set insert_iff empty_iff prod.inject simp_thms)
  have len: "length sig \<le> 16"
    using cases by (elim disjE conjE) simp_all
  note d = detect_by_signature [OF assms(1) assms(3) len]
  from cases show ?thesis
  proof (elim disjE conjE)
    assume "sig = [0x50, 0x4B]" "tag = ''zip''"
    then show ?thesis using d(1) by simp
  next
    assume "sig = [0x1F, 0x8B]" "tag = ''tar.gz''"
    then show ?thesis using d(2) by simp
  next
    assume "sig = [0x42, 0x5A, 0x68]" "tag = ''tar.bz2''"
    then show ?thesis using d(3) by simp
  next
    assume "sig = [0xFD, 0x37, 0x7A, 0x58, 0x5A, 0x00]" "tag = ''tar.xz''"
    then show ?thesis using d(4) by simp
  next
    assume "sig = [0x52, 0x61, 0x72, 0x21]" "tag = ''rar''"
    then show ?thesis using d(5) by simp
  next
    assume "sig = [0x37, 0x7A, 0xBC, 0xAF, 0x27, 0x1C]" "tag = ''7z''"
    then show ?thesis using d(6) by simp
  next
    assume "sig = [0x28, 0xB5, 0x2F, 0xFD]" "tag = ''tar.zst''"
    then show ?thesis using d(7) by simp
  qed
qed

text \<open>
  A file named \<^verbatim>\<open>notes.gz\<close> that starts with the gzip signature is \<^verbatim>\<open>tar.gz\<close>, not
  \<^verbatim>\<open>gz\<close>.
\<close>

theorem detect_signature_tag_witness:
  "os_Open (one_file ''notes.gz'' [0x1F, 0x8B, 0x08, 0x00, 0x2A]) ''notes.gz''
     = Inr (File 0x1A4 [0x1F, 0x8B, 0x08, 0x00, 0x2A]) \<and>
   ([0x1F, 0x8B :: byte], ''tar.gz'') \<in> set
          [([0x50, 0x4B], ''zip''),
           ([0x1F, 0x8B], ''tar.gz''),
           ([0x42, 0x5A, 0x68], ''tar.bz2''),
           ([0xFD, 0x37, 0x7A, 0x58, 0x5A, 0x00], ''tar.xz''),
           ([0x52, 0x61, 0x72, 0x21], ''rar''),
           ([0x37, 0x7A, 0xBC, 0xAF, 0x27, 0x1C], ''7z''),
           ([0x28, 0xB5, 0x2F, 0xFD], ''tar.zst'')] \<and>
   HasPrefix [0x1F, 0x8B, 0x08, 0x00, 0x2A] [0x1F, 0x8B] \<and>
   detectArchiveType (one_file ''notes.gz'' [0x1F, 0x8B, 0x08, 0x00, 0x2A]) ''notes.gz''
     = Inr ''tar.gz''"
proof -
  have o: "os_Open (one_file ''notes.gz'' [0x1F, 0x8B, 0x08, 0x00, 0x2A]) ''notes.gz''
     = Inr (File 0x1A4 [0x1F, 0x8B, 0x08, 0x00, 0x2A])"
    by (rule os_Open_one_file) (simp_all add: clean_key_def clean_step_def)
  have p: "HasPrefix [0x1F, 0x8B, 0x08, 0x00, 0x2A] [0x1F, 0x8B]"
    by simp
  have mem: "([0x1F, 0x8B :: byte], ''tar.gz'') \<in> set
          [([0x50, 0x4B], ''zip''),
           ([0x1F, 0x8B], ''tar.gz''),
           ([0x42, 0x5A, 0x68], ''tar.bz2''),
           ([0xFD, 0x37, 0x7A, 0x58, 0x5A, 0x00], ''tar.xz''),
           ([0x52, 0x61, 0x72, 0x21], ''rar''),
           ([0x37, 0x7A, 0xBC, 0xAF, 0x27, 0x1C], ''7z''),
           ([0x28, 0xB5, 0x2F, 0xFD], ''tar.zst'')]"
    by (simp only: list.set insert_iff simp_thms)
  show ?thesis
    using o mem p detect_signature_tag [OF o mem p] by (intro conjI)
qed

subsection \<open>Classification by extension\<close>

lemma ext_switch_unknown:
  "e \<notin> set [''.gz'', ''.bz2'', ''.xz'', ''.lz'', ''.lzma'', ''.zst'', ''.tar'', ''.tar.lz'', ''.tar.lzma'']
   \<Longrightarrow> ext_switch e = Inl (Errorf ''unknown archive type'')"
  by (simp add: ext_switch_def)

lemma ext_switch_known:
  assumes "e \<in> set [''.gz'', ''.bz2'', ''.xz'', ''.lz'', ''.lzma'', ''.zst'', ''.tar'', ''.tar.lz'', ''.tar.lzma'']"
  shows "\<exists>t. ext_switch e = Inr t"
proof -
  from assms have "e = ''.gz'' \<or> e = ''.bz2'' \<or> e = ''.xz'' \<or> e = ''.lz'' \<or> e = ''.lzma''
      \<or> e = ''.zst'' \<or> e = ''.tar'' \<or> e = ''.tar.lz'' \<or> e = ''.tar.lzma''"
    by (simp only: list.set insert_iff empty_iff simp_thms)
  then show ?thesis
    by (elim disjE) (simp_all add: ext_switch_def)
qed

lemma ext_switch_Inl:
  "ext_switch e = Inl err \<longleftrightarrow>
     err = Errorf ''unknown archive type'' \<and>
     e \<notin> set [''.gz'', ''.bz2'', ''.xz'', ''.lz'', ''.lzma'', ''.zst'', ''.tar'', ''.tar.lz'', ''.tar.lzma'']"
proof (cases "e \<in> set [''.gz'', ''.bz2'', ''.xz'', ''.lz'', ''.lzma'', ''.zst'', ''.tar'', ''.tar.lz'', ''.tar.lzma'']")
  case True
  from ext_switch_known [OF True] obtain t where "ext_switch e = Inr t" ..
  with True show ?thesis by simp
next
  case False
  from ext_switch_unknown [OF False] False show ?thesis by auto
qed

lemma magic_switch_Inl:
  "magic_switch buf path = Inl err \<longleftrightarrow>
     (\<forall>sig \<in> set [[0x50, 0x4B], [0x1F, 0x8B], [0x42, 0x5A, 0x68],
                  [0xFD, 0x37, 0x7A, 0x58, 0x5A, 0x00], [0x52, 0x61, 0x72, 0x21],
                  [0x37, 0x7A, 0xBC, 0xAF, 0x27, 0x1C], [0x28, 0xB5, 0x2F, 0xFD]].
        \<not> HasPrefix buf sig) \<and>
     ext_switch (Ext path) = Inl err"
  unfolding magic_switch_def
  by (simp only: list.set ball_simps simp_thms split: if_split) simp


lemma detect_Inl_iff:
  "detectArchiveType fs path = Inl (Errorf ''unknown archive type'') \<longleftrightarrow>
     (\<exists>m c. os_Open fs path = Inr (File m c) \<and>
        magic_switch (fst (Read 16 (File m c))) path = Inl (Errorf ''unknown archive type''))"
proof (cases "os_Open fs path")
  case (Inl err)
  then have "err = OsError ENOENT"
    by (auto simp add: os_Open_def split: if_splits option.splits)
  with Inl show ?thesis
    by (simp add: detectArchiveType_def)
next
  case (Inr f)
  then show ?thesis
    by (cases f) (simp_all add: detectArchiveType_def)
qed

text \<open>
  \<^verbatim>\<open>filepath.Ext\<close> returns at most one dot, so the cases \<^verbatim>\<open>.tar.lz\<close> and
  \<^verbatim>\<open>.tar.lzma\<close> of the extension switch are never taken.
\<close>

lemma ext_scan_one_dot:
  "CHR ''.'' \<notin> set acc \<Longrightarrow> ext_scan rs acc = [] \<or> (\<exists>e. ext_scan rs acc = CHR ''.'' # e \<and> CHR ''.'' \<notin> set e)"
  by (induction rs acc rule: ext_scan.induct) auto

lemma Ext_one_dot: "Ext path = [] \<or> (\<exists>e. Ext path = CHR ''.'' # e \<and> CHR ''.'' \<notin> set e)"
  unfolding Ext_def by (rule ext_scan_one_dot) simp

lemma Ext_not_tar_lz: "Ext path \<noteq> ''.tar.lz'' \<and> Ext path \<noteq> ''.tar.lzma''"
  using Ext_one_dot [of path] by auto

text \<open>
  C2. Classification by extension, at the two-part extensions: a file without a signature
  named \<^verbatim>\<open>x.tar.lz\<close> is classified \<^verbatim>\<open>lz\<close> and not \<^verbatim>\<open>tar.lz\<close>, and one named
  \<^verbatim>\<open>x.tar.lzma\<close> is classified \<^verbatim>\<open>lzma\<close> and not \<^verbatim>\<open>tar.lzma\<close>, because
  \<^verbatim>\<open>filepath.Ext\<close> gives the last extension only.
\<close>

theorem detect_tar_lz_is_lz:
  "detectArchiveType (one_file ''x.tar.lz'' [0x68, 0x69]) ''x.tar.lz'' = Inr ''lz'' \<and>
   detectArchiveType (one_file ''x.tar.lzma'' [0x68, 0x69]) ''x.tar.lzma'' = Inr ''lzma''"
proof -
  have o1: "os_Open (one_file ''x.tar.lz'' [0x68, 0x69]) ''x.tar.lz'' = Inr (File 0x1A4 [0x68, 0x69])"
    by (rule os_Open_one_file) (simp_all add: clean_key_def clean_step_def)
  have o2: "os_Open (one_file ''x.tar.lzma'' [0x68, 0x69]) ''x.tar.lzma'' = Inr (File 0x1A4 [0x68, 0x69])"
    by (rule os_Open_one_file) (simp_all add: clean_key_def clean_step_def)
  have e1: "Ext ''x.tar.lz'' = ''.lz''"
    by (simp add: Ext_def)
  have e2: "Ext ''x.tar.lzma'' = ''.lzma''"
    by (simp add: Ext_def)
  have "detectArchiveType (one_file ''x.tar.lz'' [0x68, 0x69]) ''x.tar.lz'' = Inr ''lz''"
    by (simp add: detect_File [OF o1] magic_switch_def e1 ext_switch_def)
  moreover have "detectArchiveType (one_file ''x.tar.lzma'' [0x68, 0x69]) ''x.tar.lzma'' = Inr ''lzma''"
    by (simp add: detect_File [OF o2] magic_switch_def e2 ext_switch_def)
  ultimately show ?thesis ..
qed

text \<open>No input at all is classified \<^verbatim>\<open>tar.lz\<close> or \<^verbatim>\<open>tar.lzma\<close>.\<close>

lemma detect_never_tar_lz:
  "detectArchiveType fs path \<noteq> Inr ''tar.lz'' \<and> detectArchiveType fs path \<noteq> Inr ''tar.lzma''"
proof -
  have e: "ext_switch (Ext path) \<noteq> Inr ''tar.lz'' \<and> ext_switch (Ext path) \<noteq> Inr ''tar.lzma''"
    using Ext_not_tar_lz [of path] by (simp add: ext_switch_def)
  have m: "magic_switch buf path \<noteq> Inr ''tar.lz'' \<and> magic_switch buf path \<noteq> Inr ''tar.lzma''" for buf
    using e by (simp add: magic_switch_def)
  show ?thesis
    using m by (auto simp add: detectArchiveType_def split: sum.splits prod.splits)
qed

lemma ext_switch_row:
  assumes "(e, tag) \<in> set [(''.gz'', ''gz''), (''.bz2'', ''bz2''), (''.xz'', ''xz''), (''.lz'', ''lz''),
                            (''.lzma'', ''lzma''), (''.zst'', ''zst''), (''.tar'', ''tar'')]"
  shows "ext_switch e = Inr tag"
proof -
  from assms have "e = ''.gz'' \<and> tag = ''gz'' \<or> e = ''.bz2'' \<and> tag = ''bz2''
      \<or> e = ''.xz'' \<and> tag = ''xz'' \<or> e = ''.lz'' \<and> tag = ''lz''
      \<or> e = ''.lzma'' \<and> tag = ''lzma'' \<or> e = ''.zst'' \<and> tag = ''zst''
      \<or> e = ''.tar'' \<and> tag = ''tar''"
    by (simp only: list.set insert_iff empty_iff prod.inject simp_thms)
  then show ?thesis
    by (elim disjE conjE; hypsubst; simp add: ext_switch_def)
qed

text \<open>
  The rows of the extension table with a single extension hold: a readable file whose
  buffer matches no signature gets the tag of its extension.
\<close>

lemma detect_by_extension:
  assumes "os_Open fs path = Inr (File m c)"
    and "\<forall>sig \<in> set [[0x50, 0x4B], [0x1F, 0x8B], [0x42, 0x5A, 0x68],
                     [0xFD, 0x37, 0x7A, 0x58, 0x5A, 0x00], [0x52, 0x61, 0x72, 0x21],
                     [0x37, 0x7A, 0xBC, 0xAF, 0x27, 0x1C], [0x28, 0xB5, 0x2F, 0xFD]].
           \<not> HasPrefix (take 16 c @ replicate (16 - length c) 0) sig"
    and "(Ext path, tag) \<in> set [(''.gz'', ''gz''), (''.bz2'', ''bz2''), (''.xz'', ''xz''),
            (''.lz'', ''lz''), (''.lzma'', ''lzma''), (''.zst'', ''zst''), (''.tar'', ''tar'')]"
  shows "detectArchiveType fs path = Inr tag"
proof -
  have "detectArchiveType fs path = ext_switch (Ext path)"
    using assms(2) unfolding detect_File [OF assms(1)] magic_switch_def
    by (simp only: list.set ball_simps simp_thms if_False)
  with ext_switch_row [OF assms(3)] show ?thesis
    by simp
qed

text \<open>
  The signatures are matched against the whole buffer, zeros included: a file of the five
  bytes \<^verbatim>\<open>FD 37 7A 58 5A\<close> is taken for \<^verbatim>\<open>tar.xz\<close> whatever its name.
\<close>

lemma detect_zero_padding:
  "detectArchiveType (one_file ''x.gz'' [0xFD, 0x37, 0x7A, 0x58, 0x5A]) ''x.gz'' = Inr ''tar.xz''"
proof -
  have o: "os_Open (one_file ''x.gz'' [0xFD, 0x37, 0x7A, 0x58, 0x5A]) ''x.gz''
      = Inr (File 0x1A4 [0xFD, 0x37, 0x7A, 0x58, 0x5A])"
    by (rule os_Open_one_file) (simp_all add: clean_key_def clean_step_def)
  have z: "HasPrefix (replicate 11 0) [0]"
    by (simp add: HasPrefix_def)
  show ?thesis
    by (simp add: detect_File [OF o] magic_switch_def z)
qed

subsection \<open>Unknown formats and short files\<close>

lemma HasPrefix_replicate: "p \<noteq> x \<Longrightarrow> \<not> HasPrefix (replicate n x) (p # ps)"
  by (cases n) auto

lemma main_detect_error:
  "detectArchiveType (files w) path = Inl err \<Longrightarrow>
   main L w (prog # path # rest) = (1, [''error detecting archive type: '' @ Error err], w)"
  by (simp add: main_def)

text \<open>
  C4. \<open>detectArchiveType\<close> fails with the unknown-format error exactly when the file can
  be read, no signature is a prefix of the buffer that was read, and the extension is none
  of the nine of the extension switch. \<open>main\<close> then prints the error and exits with code 1,
  and the world is the one it started in: no file was written and no command was run.
\<close>

theorem detect_unknown_format:
  "(detectArchiveType fs path = Inl (Errorf ''unknown archive type'') \<longleftrightarrow>
      (\<exists>m c. os_Open fs path = Inr (File m c) \<and>
         (\<forall>sig \<in> set [[0x50, 0x4B], [0x1F, 0x8B], [0x42, 0x5A, 0x68],
                      [0xFD, 0x37, 0x7A, 0x58, 0x5A, 0x00], [0x52, 0x61, 0x72, 0x21],
                      [0x37, 0x7A, 0xBC, 0xAF, 0x27, 0x1C], [0x28, 0xB5, 0x2F, 0xFD]].
            \<not> HasPrefix (fst (Read 16 (File m c))) sig) \<and>
         Ext path \<notin> set [''.gz'', ''.bz2'', ''.xz'', ''.lz'', ''.lzma'', ''.zst'', ''.tar'',
                          ''.tar.lz'', ''.tar.lzma''])) \<and>
   (detectArchiveType (files w) path = Inl (Errorf ''unknown archive type'') \<longrightarrow>
      main L w (prog # path # rest)
        = (1, [''error detecting archive type: unknown archive type''], w))"
proof (rule conjI)
  show "detectArchiveType fs path = Inl (Errorf ''unknown archive type'') \<longleftrightarrow>
      (\<exists>m c. os_Open fs path = Inr (File m c) \<and>
         (\<forall>sig \<in> set [[0x50, 0x4B], [0x1F, 0x8B], [0x42, 0x5A, 0x68],
                      [0xFD, 0x37, 0x7A, 0x58, 0x5A, 0x00], [0x52, 0x61, 0x72, 0x21],
                      [0x37, 0x7A, 0xBC, 0xAF, 0x27, 0x1C], [0x28, 0xB5, 0x2F, 0xFD]].
            \<not> HasPrefix (fst (Read 16 (File m c))) sig) \<and>
         Ext path \<notin> set [''.gz'', ''.bz2'', ''.xz'', ''.lz'', ''.lzma'', ''.zst'', ''.tar'',
                          ''.tar.lz'', ''.tar.lzma''])"
    unfolding detect_Inl_iff magic_switch_Inl ext_switch_Inl by (simp only: simp_thms)
next
  show "detectArchiveType (files w) path = Inl (Errorf ''unknown archive type'') \<longrightarrow>
      main L w (prog # path # rest)
        = (1, [''error detecting archive type: unknown archive type''], w)"
    using main_detect_error [of w path "Errorf ''unknown archive type''" L prog rest]
    by (simp only: Error.simps) simp
qed


text \<open>
  A four-byte file \<^verbatim>\<open>blob.bin\<close> with no signature: classification fails, \<open>main\<close> exits
  with code 1 and leaves the world as it was.
\<close>

theorem detect_unknown_format_witness:
  "detectArchiveType (one_file ''blob.bin'' [0xDE, 0xAD, 0xBE, 0xEF]) ''blob.bin''
     = Inl (Errorf ''unknown archive type'') \<and>
   main toy_lib \<lparr>files = one_file ''blob.bin'' [0xDE, 0xAD, 0xBE, 0xEF], procs = []\<rparr>
       [''unarch'', ''blob.bin'', ''out'']
     = (1, [''error detecting archive type: unknown archive type''],
        \<lparr>files = one_file ''blob.bin'' [0xDE, 0xAD, 0xBE, 0xEF], procs = []\<rparr>)"
proof -
  note T = detect_unknown_format [of "one_file ''blob.bin'' [0xDE, 0xAD, 0xBE, 0xEF]" "''blob.bin''"
      "\<lparr>files = one_file ''blob.bin'' [0xDE, 0xAD, 0xBE, 0xEF], procs = []\<rparr>" toy_lib
      "''unarch''" "[''out'']"]
  have o: "os_Open (one_file ''blob.bin'' [0xDE, 0xAD, 0xBE, 0xEF]) ''blob.bin''
      = Inr (File 0x1A4 [0xDE, 0xAD, 0xBE, 0xEF])"
    by (rule os_Open_one_file) (simp_all add: clean_key_def clean_step_def)
  have nosig: "\<forall>sig \<in> set [[0x50, 0x4B], [0x1F, 0x8B], [0x42, 0x5A, 0x68],
                      [0xFD, 0x37, 0x7A, 0x58, 0x5A, 0x00], [0x52, 0x61, 0x72, 0x21],
                      [0x37, 0x7A, 0xBC, 0xAF, 0x27, 0x1C], [0x28, 0xB5, 0x2F, 0xFD]].
            \<not> HasPrefix (fst (Read 16 (File 0x1A4 [0xDE, 0xAD, 0xBE, 0xEF]))) sig"
    by simp
  have ext: "Ext ''blob.bin'' \<notin> set [''.gz'', ''.bz2'', ''.xz'', ''.lz'', ''.lzma'', ''.zst'', ''.tar'',
                          ''.tar.lz'', ''.tar.lzma'']"
    by (simp add: Ext_def)
  have d: "detectArchiveType (one_file ''blob.bin'' [0xDE, 0xAD, 0xBE, 0xEF]) ''blob.bin''
      = Inl (Errorf ''unknown archive type'')"
    by (rule iffD2 [OF conjunct1 [OF T]]) (intro exI conjI, rule o, rule nosig, rule ext)
  have "files \<lparr>files = one_file ''blob.bin'' [0xDE, 0xAD, 0xBE, 0xEF], procs = []\<rparr>
      = one_file ''blob.bin'' [0xDE, 0xAD, 0xBE, 0xEF]"
    by simp
  with d have d': "detectArchiveType
        (files \<lparr>files = one_file ''blob.bin'' [0xDE, 0xAD, 0xBE, 0xEF], procs = []\<rparr>) ''blob.bin''
      = Inl (Errorf ''unknown archive type'')"
    by (simp only:)
  from d mp [OF conjunct2 [OF T] d'] show ?thesis ..
qed

text \<open>
  C6. A file of fewer than 16 bytes, the empty file included, is classified like any
  other: the signatures are matched against its bytes followed by the zeros of the buffer;
  when none matches, the result is that of the extension switch; and the only error is
  the unknown-format error, given when the extension is none of the nine either.
\<close>

theorem detect_short_file:
  assumes "os_Open fs path = Inr (File m c)" and "length c < 16"
  shows "detectArchiveType fs path = magic_switch (c @ replicate (16 - length c) 0) path \<and>
    ((\<forall>sig \<in> set [[0x50, 0x4B], [0x1F, 0x8B], [0x42, 0x5A, 0x68],
                  [0xFD, 0x37, 0x7A, 0x58, 0x5A, 0x00], [0x52, 0x61, 0x72, 0x21],
                  [0x37, 0x7A, 0xBC, 0xAF, 0x27, 0x1C], [0x28, 0xB5, 0x2F, 0xFD]].
        \<not> HasPrefix (c @ replicate (16 - length c) 0) sig) \<longrightarrow>
      detectArchiveType fs path = ext_switch (Ext path)) \<and>
    (\<forall>err. detectArchiveType fs path = Inl err \<longrightarrow>
       err = Errorf ''unknown archive type'' \<and>
       Ext path \<notin> set [''.gz'', ''.bz2'', ''.xz'', ''.lz'', ''.lzma'', ''.zst'', ''.tar'',
                        ''.tar.lz'', ''.tar.lzma''])"
proof -
  have d: "detectArchiveType fs path = magic_switch (c @ replicate (16 - length c) 0) path"
    using assms(2) by (simp add: detect_File [OF assms(1)])
  have e: "detectArchiveType fs path = ext_switch (Ext path)"
    if "\<forall>sig \<in> set [[0x50, 0x4B], [0x1F, 0x8B], [0x42, 0x5A, 0x68],
                  [0xFD, 0x37, 0x7A, 0x58, 0x5A, 0x00], [0x52, 0x61, 0x72, 0x21],
                  [0x37, 0x7A, 0xBC, 0xAF, 0x27, 0x1C], [0x28, 0xB5, 0x2F, 0xFD]].
        \<not> HasPrefix (c @ replicate (16 - length c) 0) sig"
    using that unfolding d magic_switch_def
    by (simp only: list.set ball_simps simp_thms if_False)
  have f: "err = Errorf ''unknown archive type'' \<and>
       Ext path \<notin> set [''.gz'', ''.bz2'', ''.xz'', ''.lz'', ''.lzma'', ''.zst'', ''.tar'',
                        ''.tar.lz'', ''.tar.lzma'']"
    if "detectArchiveType fs path = Inl err" for err
    using that unfolding d magic_switch_Inl ext_switch_Inl by (elim conjE) (intro conjI)
  show ?thesis
    by (intro conjI impI allI, rule d, erule e, (drule f, erule conjunct1), (drule f, erule conjunct2))
qed

text \<open>The empty file \<^verbatim>\<open>empty.gz\<close> is classified by its extension.\<close>

theorem detect_short_file_witness:
  "os_Open (one_file ''empty.gz'' []) ''empty.gz'' = Inr (File 0x1A4 []) \<and>
   length ([] :: byte list) < 16 \<and>
   detectArchiveType (one_file ''empty.gz'' []) ''empty.gz'' = Inr ''gz''"
proof -
  have o: "os_Open (one_file ''empty.gz'' []) ''empty.gz'' = Inr (File 0x1A4 [])"
    by (rule os_Open_one_file) (simp_all add: clean_key_def clean_step_def)
  have l: "length ([] :: byte list) < 16"
    by simp
  note T = detect_short_file [OF o l]
  have nosig: "\<forall>sig \<in> set [[0x50, 0x4B], [0x1F, 0x8B], [0x42, 0x5A, 0x68],
                  [0xFD, 0x37, 0x7A, 0x58, 0x5A, 0x00], [0x52, 0x61, 0x72, 0x21],
                  [0x37, 0x7A, 0xBC, 0xAF, 0x27, 0x1C], [0x28, 0xB5, 0x2F, 0xFD]].
        \<not> HasPrefix ([] @ replicate (16 - length ([] :: byte list)) 0) sig"
    by (simp add: HasPrefix_replicate)
  have e: "ext_switch (Ext ''empty.gz'') = Inr ''gz''"
    by (simp add: Ext_def ext_switch_def)
  from mp [OF conjunct1 [OF conjunct2 [OF T]] nosig] e
  have "detectArchiveType (one_file ''empty.gz'' []) ''empty.gz'' = Inr ''gz''"
    by (simp only:)
  with o l show ?thesis
    by (intro conjI)
qed

subsection \<open>The single-file strategy without a tool\<close>

lemma extractSingleFile_unsupported:
  "typ \<notin> set [''gz'', ''bz2'', ''xz'', ''zst''] \<Longrightarrow>
   extractSingleFile L w src dest typ
     = (Some (Errorf ''unsupported single file compression type''), w)"
  by (simp add: extractSingleFile_def)

lemma main_switch_single:
  assumes "typ \<in> set [''gz'', ''bz2'', ''xz'', ''lz'', ''lzma'', ''zst'']"
  shows "main_switch L w typ src dest = Some (extractSingleFile L w src dest typ)"
proof -
  from assms have "typ = ''gz'' \<or> typ = ''bz2'' \<or> typ = ''xz'' \<or> typ = ''lz'' \<or> typ = ''lzma''
      \<or> typ = ''zst''"
    by (simp only: list.set insert_iff empty_iff simp_thms)
  then show ?thesis
    by (elim disjE) (simp_all add: main_switch_def)
qed

text \<open>
  C5. \<open>extractSingleFile\<close> returns the unsupported-compression error for every tag other
  than \<^verbatim>\<open>gz\<close>, \<^verbatim>\<open>bz2\<close>, \<^verbatim>\<open>xz\<close> and \<^verbatim>\<open>zst\<close>, and returns the world untouched: no
  file is created and no command is run. The switch of \<open>main\<close> sends the tags \<^verbatim>\<open>lz\<close> and
  \<^verbatim>\<open>lzma\<close> to \<open>extractSingleFile\<close>, where they fail in this way.
\<close>

theorem single_file_unsupported:
  "(typ \<notin> set [''gz'', ''bz2'', ''xz'', ''zst''] \<longrightarrow>
      extractSingleFile L w src dest typ
        = (Some (Errorf ''unsupported single file compression type''), w)) \<and>
   (\<forall>t \<in> set [''lz'', ''lzma''].
      main_switch L w t src dest = Some (extractSingleFile L w src dest t) \<and>
      extractSingleFile L w src dest t
        = (Some (Errorf ''unsupported single file compression type''), w))"
proof -
  have a: "main_switch L w ''lz'' src dest = Some (extractSingleFile L w src dest ''lz'')"
    by (rule main_switch_single) simp
  have b: "main_switch L w ''lzma'' src dest = Some (extractSingleFile L w src dest ''lzma'')"
    by (rule main_switch_single) simp
  have c: "extractSingleFile L w src dest ''lz''
        = (Some (Errorf ''unsupported single file compression type''), w)"
    by (rule extractSingleFile_unsupported) simp
  have d: "extractSingleFile L w src dest ''lzma''
        = (Some (Errorf ''unsupported single file compression type''), w)"
    by (rule extractSingleFile_unsupported) simp
  show ?thesis
    using a b c d by (simp add: extractSingleFile_unsupported)
qed

text \<open>
  A file \<^verbatim>\<open>notes.lz\<close> without a signature is classified \<^verbatim>\<open>lz\<close>; \<open>main\<close> reports the
  extraction error, exits with code 1 and has run no command.
\<close>

theorem single_file_unsupported_witness:
  "''lz'' \<notin> set [''gz'', ''bz2'', ''xz'', ''zst''] \<and>
   ''lz'' \<in> set [''lz'', ''lzma''] \<and>
   detectArchiveType (one_file ''notes.lz'' [0x68, 0x69]) ''notes.lz'' = Inr ''lz'' \<and>
   main toy_lib \<lparr>files = one_file ''notes.lz'' [0x68, 0x69], procs = []\<rparr> [''unarch'', ''notes.lz'']
     = (1, [''extraction error: unsupported single file compression type''],
        \<lparr>files = one_file ''notes.lz'' [0x68, 0x69], procs = []\<rparr>)"
proof -
  define w where "w = \<lparr>files = one_file ''notes.lz'' [0x68, 0x69], procs = []\<rparr>"
  note T = single_file_unsupported [of "''lz''" toy_lib w "''notes.lz''" "''.''"]
  have n: "''lz'' \<notin> set [''gz'', ''bz2'', ''xz'', ''zst'']"
    by simp
  have i: "''lz'' \<in> set [''lz'', ''lzma'']"
    by simp
  have o: "os_Open (one_file ''notes.lz'' [0x68, 0x69]) ''notes.lz'' = Inr (File 0x1A4 [0x68, 0x69])"
    by (rule os_Open_one_file) (simp_all add: clean_key_def clean_step_def)
  have d: "detectArchiveType (one_file ''notes.lz'' [0x68, 0x69]) ''notes.lz'' = Inr ''lz''"
    by (simp add: detect_File [OF o] magic_switch_def Ext_def ext_switch_def)
  have s: "main_switch toy_lib w ''lz'' ''notes.lz'' ''.''
      = Some (Some (Errorf ''unsupported single file compression type''), w)"
    using bspec [OF conjunct2 [OF T] i] by (simp only:)
  have f: "files w = one_file ''notes.lz'' [0x68, 0x69]"
    by (simp add: w_def)
  have "main toy_lib w [''unarch'', ''notes.lz'']
      = (1, [''extraction error: unsupported single file compression type''], w)"
    by (simp add: main_def f d s)
  with n i d show ?thesis
    unfolding w_def by (intro conjI)
qed

subsection \<open>The filter of the streaming-tar strategy\<close>

lemma untar_File:
  "os_Open fs src = Inr (File m c) \<Longrightarrow>
   untar L fs src dest =
     (let buf = take 6 c @ replicate (6 - length c) 0 in
      if HasPrefix buf [0x1F, 0x8B] then
        (case gzip_NewReader L (c, None) of
           Inl err \<Rightarrow> (Some err, fs)
         | Inr gr \<Rightarrow> untar_loop dest (tar_NewReader L gr) fs)
      else if HasPrefix buf [0x42, 0x5A, 0x68] then
        untar_loop dest (tar_NewReader L (bzip2_NewReader L (c, None))) fs
      else if HasPrefix buf [0xFD, 0x37, 0x7A, 0x58, 0x5A, 0x00] then
        (case xz_NewReader L (c, None) of
           Inl err \<Rightarrow> (Some err, fs)
         | Inr xzr \<Rightarrow> untar_loop dest (tar_NewReader L xzr) fs)
      else if HasPrefix buf [0x28, 0xB5, 0x2F, 0xFD] then
        (case zstd_NewReader L (c, None) of
           Inl err \<Rightarrow> (Some err, fs)
         | Inr zr \<Rightarrow> untar_loop dest (tar_NewReader L zr) fs)
      else untar_loop dest (tar_NewReader L (c, None)) fs)"
  by (simp add: untar_def Let_def)

lemma main_switch_tar:
  assumes "t \<in> set [''tar'', ''tar.gz'', ''tar.bz2'', ''tar.xz'', ''tar.lz'', ''tar.lzma'', ''tar.zst'']"
  shows "main_switch L w t src dest =
     (case untar L (files w) src dest of (err, fs') \<Rightarrow> Some (err, w\<lparr>files := fs'\<rparr>))"
proof -
  from assms have "t = ''tar'' \<or> t = ''tar.gz'' \<or> t = ''tar.bz2'' \<or> t = ''tar.xz'' \<or> t = ''tar.lz''
      \<or> t = ''tar.lzma'' \<or> t = ''tar.zst''"
    by (simp only: list.set insert_iff empty_iff simp_thms)
  then show ?thesis
    by (elim disjE) (simp_all add: main_switch_def)
qed

text \<open>
  C3. \<open>untar\<close> is not given the tag. It reads six bytes of the source and takes the
  gzip, bzip2, xz or zstd decoder when the file starts with that signature; when none of
  the four is a prefix of the buffer read (for a file of six bytes or more, its first six
  bytes) it hands the file to the tar reader as it is. The switch of \<open>main\<close> makes the same
  call for every tag of the tar family.
\<close>

theorem untar_filter_by_magic:
  assumes "os_Open fs src = Inr (File m c)"
  shows
    "(HasPrefix c [0x1F, 0x8B] \<longrightarrow>
        untar L fs src dest =
          (case gzip_NewReader L (c, None) of
             Inl err \<Rightarrow> (Some err, fs)
           | Inr gr \<Rightarrow> untar_loop dest (tar_NewReader L gr) fs)) \<and>
     (HasPrefix c [0x42, 0x5A, 0x68] \<longrightarrow>
        untar L fs src dest = untar_loop dest (tar_NewReader L (bzip2_NewReader L (c, None))) fs) \<and>
     (HasPrefix c [0xFD, 0x37, 0x7A, 0x58, 0x5A, 0x00] \<longrightarrow>
        untar L fs src dest =
          (case xz_NewReader L (c, None) of
             Inl err \<Rightarrow> (Some err, fs)
           | Inr xzr \<Rightarrow> untar_loop dest (tar_NewReader L xzr) fs)) \<and>
     (HasPrefix c [0x28, 0xB5, 0x2F, 0xFD] \<longrightarrow>
        untar L fs src dest =
          (case zstd_NewReader L (c, None) of
             Inl err \<Rightarrow> (Some err, fs)
           | Inr zr \<Rightarrow> untar_loop dest (tar_NewReader L zr) fs)) \<and>
     ((\<forall>sig \<in> set [[0x1F, 0x8B], [0x42, 0x5A, 0x68], [0xFD, 0x37, 0x7A, 0x58, 0x5A, 0x00],
                   [0x28, 0xB5, 0x2F, 0xFD]].
          \<not> HasPrefix (take 6 c @ replicate (6 - length c) 0) sig) \<longrightarrow>
        untar L fs src dest = untar_loop dest (tar_NewReader L (c, None)) fs) \<and>
     (\<forall>t1 \<in> set [''tar'', ''tar.gz'', ''tar.bz2'', ''tar.xz'', ''tar.lz'', ''tar.lzma'', ''tar.zst''].
      \<forall>t2 \<in> set [''tar'', ''tar.gz'', ''tar.bz2'', ''tar.xz'', ''tar.lz'', ''tar.lzma'', ''tar.zst''].
        main_switch L w t1 src dest = main_switch L w t2 src dest)"
proof -
  define B where "B = take 6 c @ replicate (6 - length c) (0::byte)"
  note u = untar_File [OF assms, of L dest, unfolded Let_def, folded B_def]
  have buf: "HasPrefix B sig" if "HasPrefix c sig" "length sig \<le> 6" for sig
    unfolding B_def using HasPrefix_buffer [OF that] .
  have no: "\<not> HasPrefix B (q # qs)" if "HasPrefix c (p # ps)" "length (p # ps) \<le> 6" "p \<noteq> q"
    for p ps q qs
    using buf [OF that(1,2)] that(3) HasPrefix_first by blast
  have gz: "untar L fs src dest =
          (case gzip_NewReader L (c, None) of
             Inl err \<Rightarrow> (Some err, fs)
           | Inr gr \<Rightarrow> untar_loop dest (tar_NewReader L gr) fs)"
    if "HasPrefix c [0x1F, 0x8B]"
    using buf [OF that] by (simp add: u)
  have bz: "untar L fs src dest = untar_loop dest (tar_NewReader L (bzip2_NewReader L (c, None))) fs"
    if "HasPrefix c [0x42, 0x5A, 0x68]"
    using buf [OF that] no [OF that, of "0x1F"] by (simp add: u)
  have xz: "untar L fs src dest =
          (case xz_NewReader L (c, None) of
             Inl err \<Rightarrow> (Some err, fs)
           | Inr xzr \<Rightarrow> untar_loop dest (tar_NewReader L xzr) fs)"
    if "HasPrefix c [0xFD, 0x37, 0x7A, 0x58, 0x5A, 0x00]"
    using buf [OF that] no [OF that, of "0x1F"] no [OF that, of "0x42"] by (simp add: u)
  have zs: "untar L fs src dest =
          (case zstd_NewReader L (c, None) of
             Inl err \<Rightarrow> (Some err, fs)
           | Inr zr \<Rightarrow> untar_loop dest (tar_NewReader L zr) fs)"
    if "HasPrefix c [0x28, 0xB5, 0x2F, 0xFD]"
    using buf [OF that] no [OF that, of "0x1F"] no [OF that, of "0x42"] no [OF that, of "0xFD"]
    by (simp add: u)
  have pl: "untar L fs src dest = untar_loop dest (tar_NewReader L (c, None)) fs"
    if "\<forall>sig \<in> set [[0x1F, 0x8B], [0x42, 0x5A, 0x68], [0xFD, 0x37, 0x7A, 0x58, 0x5A, 0x00],
                   [0x28, 0xB5, 0x2F, 0xFD]].
          \<not> HasPrefix (take 6 c @ replicate (6 - length c) 0) sig"
    using that unfolding u B_def
    by (simp only: list.set ball_simps simp_thms if_False)
  have tg: "main_switch L w t1 src dest = main_switch L w t2 src dest"
    if "t1 \<in> set [''tar'', ''tar.gz'', ''tar.bz2'', ''tar.xz'', ''tar.lz'', ''tar.lzma'', ''tar.zst'']"
      and "t2 \<in> set [''tar'', ''tar.gz'', ''tar.bz2'', ''tar.xz'', ''tar.lz'', ''tar.lzma'', ''tar.zst'']"
    for t1 t2
    unfolding main_switch_tar [OF that(1)] main_switch_tar [OF that(2)] ..
  show ?thesis
    by (intro conjI impI ballI, erule gz, erule bz, erule xz, erule zs, erule pl, erule tg, assumption)
qed


text \<open>
  A file \<^verbatim>\<open>a.tgz\<close> with the gzip signature goes through the gzip decoder, and the tags
  \<^verbatim>\<open>tar\<close> and \<^verbatim>\<open>tar.gz\<close> are dispatched alike.
\<close>

theorem untar_filter_by_magic_witness:
  "os_Open (one_file ''a.tgz'' [0x1F, 0x8B, 0x08]) ''a.tgz'' = Inr (File 0x1A4 [0x1F, 0x8B, 0x08]) \<and>
   HasPrefix [0x1F, 0x8B, 0x08] [0x1F, 0x8B] \<and>
   untar toy_lib (one_file ''a.tgz'' [0x1F, 0x8B, 0x08]) ''a.tgz'' ''out''
     = untar_loop ''out''
         [Entry \<lparr>Name = ''a.txt'', Typeflag = TypeReg, Mode = 0x1A4\<rparr> [0x1F, 0x8B, 0x08] None]
         (one_file ''a.tgz'' [0x1F, 0x8B, 0x08]) \<and>
   ''tar'' \<in> set [''tar'', ''tar.gz'', ''tar.bz2'', ''tar.xz'', ''tar.lz'', ''tar.lzma'', ''tar.zst''] \<and>
   ''tar.gz'' \<in> set [''tar'', ''tar.gz'', ''tar.bz2'', ''tar.xz'', ''tar.lz'', ''tar.lzma'', ''tar.zst''] \<and>
   main_switch toy_lib \<lparr>files = one_file ''a.tgz'' [0x1F, 0x8B, 0x08], procs = []\<rparr> ''tar'' ''a.tgz'' ''out''
     = main_switch toy_lib \<lparr>files = one_file ''a.tgz'' [0x1F, 0x8B, 0x08], procs = []\<rparr> ''tar.gz''
         ''a.tgz'' ''out''"
proof -
  have o: "os_Open (one_file ''a.tgz'' [0x1F, 0x8B, 0x08]) ''a.tgz'' = Inr (File 0x1A4 [0x1F, 0x8B, 0x08])"
    by (rule os_Open_one_file) (simp_all add: clean_key_def clean_step_def)
  have p: "HasPrefix [0x1F, 0x8B, 0x08] [0x1F, 0x8B]"
    by simp
  note T = untar_filter_by_magic [OF o, of toy_lib "''out''"
      "\<lparr>files = one_file ''a.tgz'' [0x1F, 0x8B, 0x08], procs = []\<rparr>"]
  have u: "untar toy_lib (one_file ''a.tgz'' [0x1F, 0x8B, 0x08]) ''a.tgz'' ''out''
     = untar_loop ''out''
         [Entry \<lparr>Name = ''a.txt'', Typeflag = TypeReg, Mode = 0x1A4\<rparr> [0x1F, 0x8B, 0x08] None]
         (one_file ''a.tgz'' [0x1F, 0x8B, 0x08])"
    using mp [OF conjunct1 [OF T] p] by (simp add: toy_lib_def)
  have t1: "''tar'' \<in> set [''tar'', ''tar.gz'', ''tar.bz2'', ''tar.xz'', ''tar.lz'', ''tar.lzma'', ''tar.zst'']"
    by simp
  have t2: "''tar.gz'' \<in> set [''tar'', ''tar.gz'', ''tar.bz2'', ''tar.xz'', ''tar.lz'', ''tar.lzma'', ''tar.zst'']"
    by simp
  note tags = conjunct2 [OF conjunct2 [OF conjunct2 [OF conjunct2 [OF conjunct2 [OF T]]]]]
  note eq = bspec [OF bspec [OF tags t1] t2]
  from o p u t1 t2 eq show ?thesis
    by (intro conjI)
qed

subsection \<open>Directories and files\<close>

lemma lookup_update:
  "lookup (fs(k \<mapsto> v)) k' =
     (if list_all (\<lambda>e. e = ''..'') (snd k') then Some Directory
      else if k' = k then Some v else fs k')"
  by (simp add: lookup_def)

lemma lookup_update_Directory:
  "lookup fs k' = Some Directory \<Longrightarrow> lookup (fs(k \<mapsto> Directory)) k' = Some Directory"
  by (auto simp add: lookup_def split: if_splits)

lemma lookup_update_same_Directory: "lookup (fs(k \<mapsto> Directory)) k = Some Directory"
  by (simp add: lookup_def)

lemma mkdir_chain_keeps:
  "mkdir_chain fs r done es = (e, fs') \<Longrightarrow> lookup fs k = Some Directory \<Longrightarrow>
   lookup fs' k = Some Directory"
proof (induction es arbitrary: fs "done")
  case Nil
  then show ?case by simp
next
  case (Cons x xs)
  show ?case
  proof (cases "lookup fs (r, done @ [x])")
    case None
    with Cons.prems(1) have "mkdir_chain (fs((r, done @ [x]) \<mapsto> Directory)) r (done @ [x]) xs = (e, fs')"
      by simp
    moreover have "lookup (fs((r, done @ [x]) \<mapsto> Directory)) k = Some Directory"
      using Cons.prems(2) by (rule lookup_update_Directory)
    ultimately show ?thesis
      by (rule Cons.IH)
  next
    case (Some n)
    show ?thesis
    proof (cases n)
      case Directory
      with Some Cons.prems(1) have "mkdir_chain fs r (done @ [x]) xs = (e, fs')"
        by simp
      then show ?thesis
        using Cons.prems(2) by (rule Cons.IH)
    next
      case (File m c)
      with Some Cons.prems show ?thesis by simp
    qed
  qed
qed

lemma mkdir_chain_made:
  "mkdir_chain fs r done es = (None, fs') \<Longrightarrow> 0 < n \<Longrightarrow> n \<le> length es \<Longrightarrow>
   lookup fs' (r, done @ take n es) = Some Directory"
proof (induction es arbitrary: fs "done" n)
  case Nil
  then show ?case by simp
next
  case (Cons x xs)
  obtain fs1 where rest: "mkdir_chain fs1 r (done @ [x]) xs = (None, fs')"
    and here: "lookup fs1 (r, done @ [x]) = Some Directory"
  proof (cases "lookup fs (r, done @ [x])")
    case None
    with Cons.prems(1) have "mkdir_chain (fs((r, done @ [x]) \<mapsto> Directory)) r (done @ [x]) xs = (None, fs')"
      by simp
    then show ?thesis
      using that lookup_update_same_Directory by blast
  next
    case (Some nd)
    with Cons.prems(1) have "nd = Directory"
      by (cases nd) simp_all
    with Some Cons.prems(1) that show ?thesis by simp
  qed
  obtain n' where n: "n = Suc n'"
    using Cons.prems(2) by (cases n) simp_all
  show ?case
  proof (cases "n' = 0")
    case True
    with n mkdir_chain_keeps [OF rest here] show ?thesis by simp
  next
    case False
    with n Cons.prems(3) have "lookup fs' (r, (done @ [x]) @ take n' xs) = Some Directory"
      by (intro Cons.IH [OF rest]) simp_all
    with n show ?thesis by simp
  qed
qed

lemma mkdir_chain_idem:
  "mkdir_chain fs r done es = (None, fs') \<Longrightarrow> mkdir_chain fs' r done es = (None, fs')"
proof (induction es arbitrary: fs "done")
  case Nil
  then show ?case by simp
next
  case (Cons x xs)
  have made: "lookup fs' (r, done @ [x]) = Some Directory"
    using mkdir_chain_made [OF Cons.prems, of 1] by simp
  obtain fs1 where rest: "mkdir_chain fs1 r (done @ [x]) xs = (None, fs')"
  proof (cases "lookup fs (r, done @ [x])")
    case None
    with Cons.prems that show ?thesis by simp
  next
    case (Some nd)
    with Cons.prems have "nd = Directory"
      by (cases nd) simp_all
    with Some Cons.prems that show ?thesis by simp
  qed
  from Cons.IH [OF rest] made show ?case by simp
qed

lemma MkdirAll_made:
  assumes "MkdirAll fs path perm = (None, fs')" and "n \<le> length (snd (clean_key path))"
  shows "lookup fs' (fst (clean_key path), take n (snd (clean_key path))) = Some Directory"
proof (cases "n = 0")
  case True
  then show ?thesis by (simp add: lookup_def)
next
  case False
  from assms(1) have "mkdir_chain fs (fst (clean_key path)) [] (snd (clean_key path)) = (None, fs')"
    by (simp add: MkdirAll_def split: if_splits)
  from mkdir_chain_made [OF this _ assms(2)] False show ?thesis by simp
qed

lemma MkdirAll_target:
  assumes "MkdirAll fs path perm = (None, fs')"
  shows "lookup fs' (clean_key path) = Some Directory"
  using MkdirAll_made [OF assms order_refl] by simp

lemma MkdirAll_idem:
  assumes "MkdirAll fs path perm = (None, fs')"
  shows "MkdirAll fs' path perm' = (None, fs')"
proof -
  from assms have p: "path \<noteq> []"
    and "mkdir_chain fs (fst (clean_key path)) [] (snd (clean_key path)) = (None, fs')"
    by (simp_all add: MkdirAll_def split: if_splits)
  from mkdir_chain_idem [OF this(2)] p show ?thesis
    by (simp add: MkdirAll_def)
qed

lemma os_OpenFile_Inr:
  assumes "os_OpenFile fs name perm = Inr fs2"
  shows "\<exists>m. fs2 = fs(clean_key name \<mapsto> File m []) \<and>
    (lookup fs (clean_key name) = None \<longrightarrow> m = perm) \<and>
    (\<forall>m' c. lookup fs (clean_key name) = Some (File m' c) \<longrightarrow> m = m')"
  using assms
  by (auto simp add: os_OpenFile_def Let_def split: if_splits option.splits node.splits)

lemma os_OpenFile_parent:
  assumes "os_OpenFile fs name perm = Inr fs2"
  shows "lookup fs (fst (clean_key name), butlast (snd (clean_key name))) = Some Directory"
  using assms
  by (auto simp add: os_OpenFile_def Let_def split: if_splits option.splits node.splits)

lemma write_file_fresh:
  "write_file (fs(clean_key name \<mapsto> File m [])) name bs = fs(clean_key name \<mapsto> File m bs)"
  by (simp add: write_file_def)

lemma TypeReg_not_TypeDir: "TypeReg \<noteq> TypeDir"
  by (simp add: TypeReg_def TypeDir_def)

subsection \<open>One entry of a tar stream\<close>

lemma untar_dir_entry:
  assumes "Typeflag header = TypeDir" and "target = Join dest (Name header)"
    and "MkdirAll fs target ModePerm = (merr, fs1)"
  shows "untar_loop dest (Entry header body rerr # rest) fs = untar_loop dest rest fs1"
  using assms by (simp add: Let_def)

lemma untar_reg_entry_failed:
  assumes "Typeflag header = TypeReg" and "target = Join dest (Name header)"
    and "MkdirAll fs (Dir target) ModePerm = (merr, fs1)"
    and "os_Create fs1 target = Inl err"
  shows "untar_loop dest (Entry header body rerr # rest) fs = (Some err, fs1)"
  using assms TypeReg_not_TypeDir by (simp add: Let_def)

lemma untar_reg_entry_created:
  assumes "Typeflag header = TypeReg" and "target = Join dest (Name header)"
    and "MkdirAll fs (Dir target) ModePerm = (merr, fs1)"
    and "os_Create fs1 target = Inr fs2"
  shows "\<exists>m. fs2 = fs1(clean_key target \<mapsto> File m []) \<and>
      (lookup fs1 (clean_key target) = None \<longrightarrow> m = 0x1B6) \<and>
      untar_loop dest (Entry header body rerr # rest) fs =
        (if rerr \<noteq> None then (rerr, fs1(clean_key target \<mapsto> File m body))
         else untar_loop dest rest (fs1(clean_key target \<mapsto> File m body)))"
proof -
  from os_OpenFile_Inr [OF assms(4) [unfolded os_Create_def]]
  obtain m where all: "fs2 = fs1(clean_key target \<mapsto> File m []) \<and>
      (lookup fs1 (clean_key target) = None \<longrightarrow> m = 0x1B6) \<and>
      (\<forall>m' c. lookup fs1 (clean_key target) = Some (File m' c) \<longrightarrow> m = m')" ..
  from all have fs2: "fs2 = fs1(clean_key target \<mapsto> File m [])"
    by (rule conjunct1)
  from all have m: "lookup fs1 (clean_key target) = None \<longrightarrow> m = 0x1B6"
    by (rule conjunct1 [OF conjunct2])
  have "io_Copy fs2 target (body, rerr) = (fs1(clean_key target \<mapsto> File m body), rerr)"
    by (simp add: io_Copy_def fs2 write_file_fresh)
  with assms TypeReg_not_TypeDir
  have "untar_loop dest (Entry header body rerr # rest) fs =
        (if rerr \<noteq> None then (rerr, fs1(clean_key target \<mapsto> File m body))
         else untar_loop dest rest (fs1(clean_key target \<mapsto> File m body)))"
    by (simp add: Let_def)
  with fs2 m show ?thesis
    by (intro exI [of _ m] conjI)
qed

lemma untar_other_entry:
  assumes "Typeflag header \<noteq> TypeDir" and "Typeflag header \<noteq> TypeReg"
  shows "untar_loop dest (Entry header body rerr # rest) fs = untar_loop dest rest fs"
  using assms by (simp add: Let_def)

text \<open>
  C7. What \<open>untar\<close> does with one entry, by the type in its header. \<open>target\<close> is the
  output path of the entry, \<open>fsd\<close> the file system after \<^verbatim>\<open>MkdirAll(target)\<close>, \<open>fsp\<close>
  the file system after \<^verbatim>\<open>MkdirAll(filepath.Dir(target))\<close>.
  \<^item> A directory entry: the loop goes on from \<open>fsd\<close>. When \<^verbatim>\<open>MkdirAll\<close> succeeded, the target
    and every directory above it exist in \<open>fsd\<close>, and making the directory once more
    changes nothing.
  \<^item> A regular-file entry: when \<^verbatim>\<open>MkdirAll\<close> succeeded the parent directory exists in
    \<open>fsp\<close>. When the file cannot be created the loop stops with that error. Otherwise the
    file at the target holds exactly the bytes of the entry, and the loop goes on, or stops
    with the error the entry's body ended with.
  \<^item> Any other entry: the loop goes on from the unchanged file system.
\<close>

theorem untar_entry_by_type:
  assumes "target = Join dest (Name header)"
    and "MkdirAll fs target ModePerm = (derr, fsd)"
    and "MkdirAll fs (Dir target) ModePerm = (perr, fsp)"
  shows
    "(Typeflag header = TypeDir \<longrightarrow>
        untar_loop dest (Entry header body rerr # rest) fs = untar_loop dest rest fsd \<and>
        (derr = None \<longrightarrow>
           (\<forall>n \<le> length (snd (clean_key target)).
              lookup fsd (fst (clean_key target), take n (snd (clean_key target))) = Some Directory) \<and>
           MkdirAll fsd target ModePerm = (None, fsd))) \<and>
     (Typeflag header = TypeReg \<longrightarrow>
        (perr = None \<longrightarrow> lookup fsp (clean_key (Dir target)) = Some Directory) \<and>
        (\<forall>err. os_Create fsp target = Inl err \<longrightarrow>
           untar_loop dest (Entry header body rerr # rest) fs = (Some err, fsp)) \<and>
        (\<forall>fs2. os_Create fsp target = Inr fs2 \<longrightarrow>
           (\<exists>m. untar_loop dest (Entry header body rerr # rest) fs =
              (if rerr \<noteq> None then (rerr, fsp(clean_key target \<mapsto> File m body))
               else untar_loop dest rest (fsp(clean_key target \<mapsto> File m body)))))) \<and>
     (Typeflag header \<noteq> TypeDir \<and> Typeflag header \<noteq> TypeReg \<longrightarrow>
        untar_loop dest (Entry header body rerr # rest) fs = untar_loop dest rest fs)"
proof (intro conjI impI allI)
  assume "Typeflag header = TypeDir"
  then show "untar_loop dest (Entry header body rerr # rest) fs = untar_loop dest rest fsd"
    using assms(1,2) by (rule untar_dir_entry)
next
  fix n
  assume "derr = None" and "n \<le> length (snd (clean_key target))"
  with assms(2) show "lookup fsd (fst (clean_key target), take n (snd (clean_key target))) = Some Directory"
    by (intro MkdirAll_made [of fs target ModePerm]) simp_all
next
  assume "derr = None"
  with assms(2) show "MkdirAll fsd target ModePerm = (None, fsd)"
    by (intro MkdirAll_idem [of fs target ModePerm]) simp
next
  assume "perr = None"
  with assms(3) show "lookup fsp (clean_key (Dir target)) = Some Directory"
    by (intro MkdirAll_target [of fs "Dir target" ModePerm]) simp
next
  fix err
  assume "Typeflag header = TypeReg" and "os_Create fsp target = Inl err"
  with assms(1,3) show "untar_loop dest (Entry header body rerr # rest) fs = (Some err, fsp)"
    by (intro untar_reg_entry_failed)
next
  fix fs2
  assume "Typeflag header = TypeReg" and "os_Create fsp target = Inr fs2"
  from untar_reg_entry_created [OF this(1) assms(1,3) this(2)]
  obtain m where "fs2 = fsp(clean_key target \<mapsto> File m []) \<and>
      (lookup fsp (clean_key target) = None \<longrightarrow> m = 0x1B6) \<and>
      untar_loop dest (Entry header body rerr # rest) fs =
        (if rerr \<noteq> None then (rerr, fsp(clean_key target \<mapsto> File m body))
         else untar_loop dest rest (fsp(clean_key target \<mapsto> File m body)))" ..
  then have "untar_loop dest (Entry header body rerr # rest) fs =
        (if rerr \<noteq> None then (rerr, fsp(clean_key target \<mapsto> File m body))
         else untar_loop dest rest (fsp(clean_key target \<mapsto> File m body)))"
    by (rule conjunct2 [OF conjunct2])
  then show "\<exists>m. untar_loop dest (Entry header body rerr # rest) fs =
              (if rerr \<noteq> None then (rerr, fsp(clean_key target \<mapsto> File m body))
               else untar_loop dest rest (fsp(clean_key target \<mapsto> File m body)))"
    by (intro exI)
next
  assume "Typeflag header \<noteq> TypeDir \<and> Typeflag header \<noteq> TypeReg"
  then show "untar_loop dest (Entry header body rerr # rest) fs = untar_loop dest rest fs"
    by (intro untar_other_entry) simp_all
qed

subsection \<open>Concrete paths for the examples\<close>

lemma Join_out_docs_a: "Join ''out'' ''docs/a'' = ''out/docs/a''"
  by (simp add: Join_def Clean_def clean_key_def clean_step_def render_def)

lemma key_out_docs_a: "clean_key ''out/docs/a'' = (False, [''out'', ''docs'', ''a''])"
  by (simp add: clean_key_def clean_step_def)

lemma Dir_out_docs_a: "Dir ''out/docs/a'' = ''out/docs''"
  by (simp add: Dir_def Clean_def clean_key_def clean_step_def render_def)

lemma key_out_docs: "clean_key ''out/docs'' = (False, [''out'', ''docs''])"
  by (simp add: clean_key_def clean_step_def)

lemma MkdirAll_out_docs_a:
  "MkdirAll Map.empty ''out/docs/a'' ModePerm
     = (None, [(False, [''out'']) \<mapsto> Directory, (False, [''out'', ''docs'']) \<mapsto> Directory,
               (False, [''out'', ''docs'', ''a'']) \<mapsto> Directory])"
  by (simp add: MkdirAll_def key_out_docs_a lookup_def)

lemma MkdirAll_out_docs:
  "MkdirAll Map.empty ''out/docs'' ModePerm
     = (None, [(False, [''out'']) \<mapsto> Directory, (False, [''out'', ''docs'']) \<mapsto> Directory])"
  by (simp add: MkdirAll_def key_out_docs lookup_def)

lemma os_Create_out_docs_a:
  "os_Create [(False, [''out'']) \<mapsto> Directory, (False, [''out'', ''docs'']) \<mapsto> Directory] ''out/docs/a''
     = Inr [(False, [''out'']) \<mapsto> Directory, (False, [''out'', ''docs'']) \<mapsto> Directory,
            (False, [''out'', ''docs'', ''a'']) \<mapsto> File 0x1B6 []]"
  by (simp add: os_Create_def os_OpenFile_def key_out_docs_a lookup_def)

text \<open>
  An entry \<^verbatim>\<open>docs/a\<close> extracted to \<^verbatim>\<open>out\<close> in an empty file system: as a regular
  file it ends as the file \<^verbatim>\<open>out/docs/a\<close> with the bytes of its body under the two
  directories made for it; as a symbolic link (type \<^verbatim>\<open>2\<close>) it leaves the file system
  empty; as a directory it ends as the directory \<^verbatim>\<open>out/docs/a\<close>.
\<close>

theorem untar_entry_by_type_witness:
  "''out/docs/a'' = Join ''out'' (Name \<lparr>Name = ''docs/a'', Typeflag = TypeReg, Mode = 0x1A4\<rparr>) \<and>
   MkdirAll Map.empty ''out/docs/a'' ModePerm
     = (None, [(False, [''out'']) \<mapsto> Directory, (False, [''out'', ''docs'']) \<mapsto> Directory,
               (False, [''out'', ''docs'', ''a'']) \<mapsto> Directory]) \<and>
   MkdirAll Map.empty (Dir ''out/docs/a'') ModePerm
     = (None, [(False, [''out'']) \<mapsto> Directory, (False, [''out'', ''docs'']) \<mapsto> Directory]) \<and>
   (\<exists>m. untar_loop ''out''
           [Entry \<lparr>Name = ''docs/a'', Typeflag = TypeReg, Mode = 0x1A4\<rparr> [0x68, 0x69] None] Map.empty
         = (None, [(False, [''out'']) \<mapsto> Directory, (False, [''out'', ''docs'']) \<mapsto> Directory,
                   (False, [''out'', ''docs'', ''a'']) \<mapsto> File m [0x68, 0x69]])) \<and>
   untar_loop ''out''
       [Entry \<lparr>Name = ''docs/a'', Typeflag = 0x32, Mode = 0x1FF\<rparr> [] None] Map.empty
     = (None, Map.empty) \<and>
   untar_loop ''out''
       [Entry \<lparr>Name = ''docs/a'', Typeflag = TypeDir, Mode = 0x1ED\<rparr> [] None] Map.empty
     = (None, [(False, [''out'']) \<mapsto> Directory, (False, [''out'', ''docs'']) \<mapsto> Directory,
               (False, [''out'', ''docs'', ''a'']) \<mapsto> Directory])"
proof -
  define fsd :: fsys where "fsd = [(False, [''out'']) \<mapsto> Directory,
      (False, [''out'', ''docs'']) \<mapsto> Directory, (False, [''out'', ''docs'', ''a'']) \<mapsto> Directory]"
  define fsp :: fsys where "fsp = [(False, [''out'']) \<mapsto> Directory,
      (False, [''out'', ''docs'']) \<mapsto> Directory]"
  have t: "''out/docs/a'' = Join ''out'' (Name \<lparr>Name = ''docs/a'', Typeflag = ty, Mode = mo\<rparr>)" for ty mo
    by (simp add: Join_out_docs_a)
  have md: "MkdirAll Map.empty ''out/docs/a'' ModePerm = (None, fsd)"
    unfolding fsd_def by (rule MkdirAll_out_docs_a)
  have mk: "MkdirAll Map.empty (Dir ''out/docs/a'') ModePerm = (None, fsp)"
    unfolding fsp_def Dir_out_docs_a by (rule MkdirAll_out_docs)
  have cr: "os_Create fsp ''out/docs/a'' = Inr (fsp((False, [''out'', ''docs'', ''a'']) \<mapsto> File 0x1B6 []))"
    unfolding fsp_def by (rule os_Create_out_docs_a)
  note R = untar_entry_by_type [OF t md mk, of TypeReg "0x1A4" "[0x68, 0x69]" None "[]"]
  note S = untar_entry_by_type [OF t md mk, of "0x32" "0x1FF" "[]" None "[]"]
  note D = untar_entry_by_type [OF t md mk, of TypeDir "0x1ED" "[]" None "[]"]
  have reg: "\<exists>m. untar_loop ''out''
           [Entry \<lparr>Name = ''docs/a'', Typeflag = TypeReg, Mode = 0x1A4\<rparr> [0x68, 0x69] None] Map.empty
         = (None, fsp((False, [''out'', ''docs'', ''a'']) \<mapsto> File m [0x68, 0x69]))"
    using conjunct1 [OF conjunct2 [OF R]] cr by (simp add: key_out_docs_a)
  have sym: "untar_loop ''out''
       [Entry \<lparr>Name = ''docs/a'', Typeflag = 0x32, Mode = 0x1FF\<rparr> [] None] Map.empty
     = (None, Map.empty)"
    using conjunct2 [OF conjunct2 [OF S]] by (simp add: TypeDir_def TypeReg_def)
  have dir: "untar_loop ''out''
       [Entry \<lparr>Name = ''docs/a'', Typeflag = TypeDir, Mode = 0x1ED\<rparr> [] None] Map.empty
     = (None, fsd)"
    using conjunct1 [OF D] by simp
  from t [of TypeReg "0x1A4"] md mk reg sym dir show ?thesis
    unfolding fsd_def fsp_def by (intro conjI)
qed

subsection \<open>The output of the single-file strategy\<close>

lemma extractSingleFile_tool:
  assumes "(typ, tool) \<in> set [(''gz'', ''gunzip''), (''bz2'', ''bunzip2''), (''xz'', ''unxz''),
                               (''zst'', ''unzstd'')]"
  shows "extractSingleFile L w src dest typ =
     (let outPath = Join dest (Base src) in
      case os_Create (files w) outPath of
        Inl err \<Rightarrow> (Some err, w)
      | Inr fs1 \<Rightarrow>
         (case cmd_Run L tool [''-k'', ''-c'', src] fs1 of (out, fs2, err) \<Rightarrow>
            (err, \<lparr>files = write_file fs2 outPath out,
                   procs = procs w @ [(tool, [''-k'', ''-c'', src])]\<rparr>)))"
proof -
  from assms have "typ = ''gz'' \<and> tool = ''gunzip'' \<or> typ = ''bz2'' \<and> tool = ''bunzip2''
      \<or> typ = ''xz'' \<and> tool = ''unxz'' \<or> typ = ''zst'' \<and> tool = ''unzstd''"
    by (simp only: list.set insert_iff empty_iff prod.inject simp_thms)
  then show ?thesis
    by (elim disjE conjE; hypsubst; simp add: extractSingleFile_def)
qed

text \<open>
  C8. For the four supported tags \<open>extractSingleFile\<close> creates the file
  \<^verbatim>\<open>filepath.Join(dest, filepath.Base(src))\<close>, runs the tool of the tag with
  \<^verbatim>\<open>-k -c src\<close>, and, the tool leaving that file alone, the file afterwards holds exactly
  what the tool wrote to its standard output. The result is the error of the run.
\<close>

theorem single_file_output:
  assumes "(typ, tool) \<in> set [(''gz'', ''gunzip''), (''bz2'', ''bunzip2''), (''xz'', ''unxz''),
                               (''zst'', ''unzstd'')]"
    and "outPath = Join dest (Base src)"
    and "os_Create (files w) outPath = Inr fs1"
    and "cmd_Run L tool [''-k'', ''-c'', src] fs1 = (out, fs2, err)"
    and "fs2 (clean_key outPath) = fs1 (clean_key outPath)"
  shows "\<exists>m. extractSingleFile L w src dest typ =
     (err, \<lparr>files = fs2(clean_key outPath \<mapsto> File m out),
            procs = procs w @ [(tool, [''-k'', ''-c'', src])]\<rparr>)"
proof -
  from os_OpenFile_Inr [OF assms(3) [unfolded os_Create_def]]
  obtain m where all: "fs1 = (files w)(clean_key outPath \<mapsto> File m []) \<and>
      (lookup (files w) (clean_key outPath) = None \<longrightarrow> m = 0x1B6) \<and>
      (\<forall>m' c. lookup (files w) (clean_key outPath) = Some (File m' c) \<longrightarrow> m = m')" ..
  then have "fs1 (clean_key outPath) = Some (File m [])"
    by simp
  with assms(5) have "write_file fs2 outPath out = fs2(clean_key outPath \<mapsto> File m out)"
    by (simp add: write_file_def)
  then have "extractSingleFile L w src dest typ =
     (err, \<lparr>files = fs2(clean_key outPath \<mapsto> File m out),
            procs = procs w @ [(tool, [''-k'', ''-c'', src])]\<rparr>)"
    using assms(2,3,4) by (simp add: extractSingleFile_tool [OF assms(1)] Let_def)
  then show ?thesis
    by (intro exI)
qed


text \<open>
  The example of the specification: \<^verbatim>\<open>data.xz\<close> extracted to \<^verbatim>\<open>./out\<close> gives the file
  \<^verbatim>\<open>out/data.xz\<close> with the bytes the tool printed, and the source is still there.
\<close>

theorem single_file_output_witness:
  "(''xz'', ''unxz'') \<in> set [(''gz'', ''gunzip''), (''bz2'', ''bunzip2''), (''xz'', ''unxz''),
                               (''zst'', ''unzstd'')] \<and>
   ''out/data.xz'' = Join ''./out'' (Base ''data.xz'') \<and>
   (\<exists>m. extractSingleFile toy_lib
          \<lparr>files = [(False, [''out'']) \<mapsto> Directory, (False, [''data.xz'']) \<mapsto> File 0x1A4 [1, 2, 3]],
           procs = []\<rparr> ''data.xz'' ''./out'' ''xz''
      = (None,
         \<lparr>files = [(False, [''out'']) \<mapsto> Directory, (False, [''data.xz'']) \<mapsto> File 0x1A4 [1, 2, 3],
                   (False, [''out'', ''data.xz'']) \<mapsto> File m [0x68, 0x69]],
          procs = [(''unxz'', [''-k'', ''-c'', ''data.xz''])]\<rparr>))"
proof -
  define fs0 :: fsys where
    "fs0 = [(False, [''out'']) \<mapsto> Directory, (False, [''data.xz'']) \<mapsto> File 0x1A4 [1, 2, 3]]"
  define fs1 :: fsys where "fs1 = fs0((False, [''out'', ''data.xz'']) \<mapsto> File 0x1B6 [])"
  have mem: "(''xz'', ''unxz'') \<in> set [(''gz'', ''gunzip''), (''bz2'', ''bunzip2''), (''xz'', ''unxz''),
                               (''zst'', ''unzstd'')]"
    by simp
  have p: "''out/data.xz'' = Join ''./out'' (Base ''data.xz'')"
    by (simp add: Join_def Base_def Clean_def clean_key_def clean_step_def render_def)
  have k: "clean_key ''out/data.xz'' = (False, [''out'', ''data.xz''])"
    by (simp add: clean_key_def clean_step_def)
  have c: "os_Create (files \<lparr>files = fs0, procs = []\<rparr>) ''out/data.xz'' = Inr fs1"
    by (simp add: os_Create_def os_OpenFile_def k lookup_def fs0_def fs1_def)
  have r: "cmd_Run toy_lib ''unxz'' [''-k'', ''-c'', ''data.xz''] fs1 = ([0x68, 0x69], fs1, None)"
    by (simp add: toy_lib_def)
  have u: "fs1 (clean_key ''out/data.xz'') = fs1 (clean_key ''out/data.xz'')"
    by (rule refl)
  from single_file_output [OF mem p c r u]
  obtain m where "extractSingleFile toy_lib \<lparr>files = fs0, procs = []\<rparr> ''data.xz'' ''./out'' ''xz''
      = (None, \<lparr>files = fs1(clean_key ''out/data.xz'' \<mapsto> File m [0x68, 0x69]),
                procs = procs \<lparr>files = fs0, procs = []\<rparr> @ [(''unxz'', [''-k'', ''-c'', ''data.xz''])]\<rparr>)" ..
  then have "extractSingleFile toy_lib \<lparr>files = fs0, procs = []\<rparr> ''data.xz'' ''./out'' ''xz''
      = (None, \<lparr>files = fs0((False, [''out'', ''data.xz'']) \<mapsto> File m [0x68, 0x69]),
                procs = [(''unxz'', [''-k'', ''-c'', ''data.xz''])]\<rparr>)"
    by (simp add: k fs1_def)
  then have "\<exists>m. extractSingleFile toy_lib \<lparr>files = fs0, procs = []\<rparr> ''data.xz'' ''./out'' ''xz''
      = (None, \<lparr>files = fs0((False, [''out'', ''data.xz'']) \<mapsto> File m [0x68, 0x69]),
                procs = [(''unxz'', [''-k'', ''-c'', ''data.xz''])]\<rparr>)"
    by (intro exI)
  with mem p show ?thesis
    unfolding fs0_def by (intro conjI)
qed

subsection \<open>Entry names that leave the destination\<close>

lemma Join_out_evil: "Join ''out'' ''../evil'' = ''evil''"
  by (simp add: Join_def Clean_def clean_key_def clean_step_def render_def)

lemma key_evil: "clean_key ''evil'' = (False, [''evil''])"
  by (simp add: clean_key_def clean_step_def)

lemma key_out: "clean_key ''out'' = (False, [''out''])"
  by (simp add: clean_key_def clean_step_def)

lemma Dir_evil: "Dir ''evil'' = ''.''"
  by (simp add: Dir_def Clean_def clean_key_def clean_step_def render_def)

lemma key_dot: "clean_key ''.'' = (False, [])"
  by (simp add: clean_key_def clean_step_def)

lemma MkdirAll_dot: "MkdirAll fs ''.'' perm = (None, fs)"
  by (simp add: MkdirAll_def key_dot)

lemma os_OpenFile_evil:
  "os_OpenFile [(False, [''out'']) \<mapsto> Directory] ''evil'' perm
     = Inr [(False, [''out'']) \<mapsto> Directory, (False, [''evil'']) \<mapsto> File perm []]"
  by (simp add: os_OpenFile_def key_evil lookup_def)

text \<open>An absolute entry name does not leave the destination: it is joined below it.\<close>

lemma absolute_name_stays_under_root:
  "Join ''out'' ''/etc/passwd'' = ''out/etc/passwd'' \<and> under_root ''out'' (Join ''out'' ''/etc/passwd'')"
  by (simp add: Join_def Clean_def clean_key_def clean_step_def render_def under_root_def)

text \<open>
  C9. \<open>untar\<close> and \<open>unzip\<close> write an entry to \<^verbatim>\<open>filepath.Join(dest, name)\<close> and check
  nothing about the name. For the destination \<^verbatim>\<open>out\<close> and the entry name \<^verbatim>\<open>../evil\<close> the
  joined path is \<^verbatim>\<open>evil\<close>, which is not under \<^verbatim>\<open>out\<close>, and both strategies create that
  file beside the destination directory.
\<close>

theorem entry_name_escapes_destination:
  "Join ''out'' ''../evil'' = ''evil'' \<and>
   \<not> under_root ''out'' (Join ''out'' ''../evil'') \<and>
   untar_loop ''out''
       [Entry \<lparr>Name = ''../evil'', Typeflag = TypeReg, Mode = 0x1A4\<rparr> [0x68, 0x69] None]
       [(False, [''out'']) \<mapsto> Directory]
     = (None, [(False, [''out'']) \<mapsto> Directory, (False, [''evil'']) \<mapsto> File 0x1B6 [0x68, 0x69]]) \<and>
   unzip_loop ''out''
       [\<lparr>zName = ''../evil'', zMode = 0x1A4, zOpen = Inr ([0x68, 0x69], None)\<rparr>]
       [(False, [''out'']) \<mapsto> Directory]
     = (None, [(False, [''out'']) \<mapsto> Directory, (False, [''evil'']) \<mapsto> File 0x1A4 [0x68, 0x69]])"
proof -
  have out: "\<not> under_root ''out'' (Join ''out'' ''../evil'')"
    by (simp add: Join_out_evil under_root_def key_evil key_out)
  have w: "write_file [(False, [''out'']) \<mapsto> Directory, (False, [''evil'']) \<mapsto> File perm []] ''evil'' bs
      = [(False, [''out'']) \<mapsto> Directory, (False, [''evil'']) \<mapsto> File perm bs]" for perm bs
    by (simp add: write_file_def key_evil)
  have tar: "untar_loop ''out''
       [Entry \<lparr>Name = ''../evil'', Typeflag = TypeReg, Mode = 0x1A4\<rparr> [0x68, 0x69] None]
       [(False, [''out'']) \<mapsto> Directory]
     = (None, [(False, [''out'']) \<mapsto> Directory, (False, [''evil'']) \<mapsto> File 0x1B6 [0x68, 0x69]])"
    using TypeReg_not_TypeDir
    by (simp add: Join_out_evil Dir_evil MkdirAll_dot os_Create_def os_OpenFile_evil io_Copy_def w)
  have nd: "\<not> IsDir 0x1A4"
    by (simp add: IsDir_def ModeDir_def)
  have zip: "unzip_loop ''out''
       [\<lparr>zName = ''../evil'', zMode = 0x1A4, zOpen = Inr ([0x68, 0x69], None)\<rparr>]
       [(False, [''out'']) \<mapsto> Directory]
     = (None, [(False, [''out'']) \<mapsto> Directory, (False, [''evil'']) \<mapsto> File 0x1A4 [0x68, 0x69]])"
    using nd
    by (simp add: Join_out_evil Dir_evil MkdirAll_dot os_OpenFile_evil io_Copy_def w)
  from Join_out_evil out tar zip show ?thesis
    by (intro conjI)
qed

subsection \<open>Permission bits\<close>

lemma untar_loop_with_mode:
  "untar_loop dest (map (with_mode g) entries) fs = untar_loop dest entries fs"
proof (induction dest entries fs rule: untar_loop.induct)
  case (1 dest fs)
  show ?case by simp
next
  case (2 dest err rest fs)
  show ?case by simp
next
  case (3 dest header body rerr rest fs)
  then show ?case
    by (simp add: Let_def split: sum.splits prod.splits)
qed

lemma unzip_file_entry:
  assumes "\<not> IsDir (zMode f)" and "fpath = Join dest (zName f)"
    and "MkdirAll fs (Dir fpath) ModePerm = (perr, fsp)"
    and "os_OpenFile fsp fpath (zMode f) = Inr fs2"
    and "zOpen f = Inr (body, rerr)"
  shows "\<exists>m. (lookup fsp (clean_key fpath) = None \<longrightarrow> m = zMode f) \<and>
      unzip_loop dest (f # rest) fs =
        (if rerr \<noteq> None then (rerr, fsp(clean_key fpath \<mapsto> File m body))
         else unzip_loop dest rest (fsp(clean_key fpath \<mapsto> File m body)))"
proof -
  from os_OpenFile_Inr [OF assms(4)]
  obtain m where all: "fs2 = fsp(clean_key fpath \<mapsto> File m []) \<and>
      (lookup fsp (clean_key fpath) = None \<longrightarrow> m = zMode f) \<and>
      (\<forall>m' c. lookup fsp (clean_key fpath) = Some (File m' c) \<longrightarrow> m = m')" ..
  from all have fs2: "fs2 = fsp(clean_key fpath \<mapsto> File m [])"
    by (rule conjunct1)
  from all have m: "lookup fsp (clean_key fpath) = None \<longrightarrow> m = zMode f"
    by (rule conjunct1 [OF conjunct2])
  have "io_Copy fs2 fpath (body, rerr) = (fsp(clean_key fpath \<mapsto> File m body), rerr)"
    by (simp add: io_Copy_def fs2 write_file_fresh)
  with assms have "unzip_loop dest (f # rest) fs =
        (if rerr \<noteq> None then (rerr, fsp(clean_key fpath \<mapsto> File m body))
         else unzip_loop dest rest (fsp(clean_key fpath \<mapsto> File m body)))"
    by (simp add: Let_def)
  with m show ?thesis
    by (intro exI [of _ m] conjI)
qed

text \<open>
  C10. The result of \<open>untar\<close> does not depend on the permission bits in the headers of
  the entries: with any other bits it is the same. A file that \<open>untar\<close> newly creates
  has the mode \<^verbatim>\<open>0666\<close> of \<^verbatim>\<open>os.Create\<close>, whereas a file that \<open>unzip\<close> newly creates
  has the mode stored in its entry.
\<close>

theorem tar_mode_ignored_zip_mode_applied:
  "untar_loop dest (map (with_mode g) entries) fs = untar_loop dest entries fs \<and>
   (Typeflag header = TypeReg \<and> target = Join dest (Name header) \<and>
    MkdirAll fs (Dir target) ModePerm = (perr, fsp) \<and>
    lookup fsp (clean_key target) = None \<and> os_Create fsp target = Inr fs2 \<longrightarrow>
      untar_loop dest [Entry header body None] fs
        = (None, fsp(clean_key target \<mapsto> File 0x1B6 body))) \<and>
   (\<not> IsDir (zMode f) \<and> fpath = Join dest (zName f) \<and>
    MkdirAll fs (Dir fpath) ModePerm = (zerr, fsz) \<and>
    lookup fsz (clean_key fpath) = None \<and> os_OpenFile fsz fpath (zMode f) = Inr fs3 \<and>
    zOpen f = Inr (body, None) \<longrightarrow>
      unzip_loop dest [f] fs
        = (None, fsz(clean_key fpath \<mapsto> File (zMode f) body)))"
proof (intro conjI impI; (elim conjE)?)
  show "untar_loop dest (map (with_mode g) entries) fs = untar_loop dest entries fs"
    by (rule untar_loop_with_mode)
next
  assume a1: "Typeflag header = TypeReg" and a2: "target = Join dest (Name header)"
    and a3: "MkdirAll fs (Dir target) ModePerm = (perr, fsp)"
    and a4: "lookup fsp (clean_key target) = None" and a5: "os_Create fsp target = Inr fs2"
  from untar_reg_entry_created [OF a1 a2 a3 a5, of body None "[]"]
  obtain m where all: "fs2 = fsp(clean_key target \<mapsto> File m []) \<and>
      (lookup fsp (clean_key target) = None \<longrightarrow> m = 0x1B6) \<and>
      untar_loop dest [Entry header body None] fs =
        (if None \<noteq> (None :: error option) then (None, fsp(clean_key target \<mapsto> File m body))
         else untar_loop dest [] (fsp(clean_key target \<mapsto> File m body)))" ..
  from all a4 have "m = 0x1B6"
    by (elim conjE) (erule mp)
  with all show "untar_loop dest [Entry header body None] fs
        = (None, fsp(clean_key target \<mapsto> File 0x1B6 body))"
    by simp
next
  assume a1: "\<not> IsDir (zMode f)" and a2: "fpath = Join dest (zName f)"
    and a3: "MkdirAll fs (Dir fpath) ModePerm = (zerr, fsz)"
    and a4: "lookup fsz (clean_key fpath) = None"
    and a5: "os_OpenFile fsz fpath (zMode f) = Inr fs3"
    and a6: "zOpen f = Inr (body, None)"
  from unzip_file_entry [OF a1 a2 a3 a5 a6, of "[]"]
  obtain m where all: "(lookup fsz (clean_key fpath) = None \<longrightarrow> m = zMode f) \<and>
      unzip_loop dest [f] fs =
        (if None \<noteq> (None :: error option) then (None, fsz(clean_key fpath \<mapsto> File m body))
         else unzip_loop dest [] (fsz(clean_key fpath \<mapsto> File m body)))" ..
  from all a4 have "m = zMode f"
    by (elim conjE) (erule mp)
  with all show "unzip_loop dest [f] fs
        = (None, fsz(clean_key fpath \<mapsto> File (zMode f) body))"
    by simp
qed


text \<open>
  The entry \<^verbatim>\<open>docs/a\<close> with stored mode \<^verbatim>\<open>0755\<close>, extracted to \<^verbatim>\<open>out\<close> in an empty
  file system: from a tar stream the file gets mode \<^verbatim>\<open>0666\<close>, from a zip archive mode
  \<^verbatim>\<open>0755\<close>.
\<close>

theorem tar_mode_ignored_zip_mode_applied_witness:
  "Typeflag \<lparr>Name = ''docs/a'', Typeflag = TypeReg, Mode = 0x1ED\<rparr> = TypeReg \<and>
   \<not> IsDir (zMode \<lparr>zName = ''docs/a'', zMode = 0x1ED, zOpen = Inr ([0x68, 0x69], None)\<rparr>) \<and>
   MkdirAll Map.empty (Dir ''out/docs/a'') ModePerm
     = (None, [(False, [''out'']) \<mapsto> Directory, (False, [''out'', ''docs'']) \<mapsto> Directory]) \<and>
   lookup [(False, [''out'']) \<mapsto> Directory, (False, [''out'', ''docs'']) \<mapsto> Directory]
     (clean_key ''out/docs/a'') = None \<and>
   untar_loop ''out''
       [Entry \<lparr>Name = ''docs/a'', Typeflag = TypeReg, Mode = 0x1ED\<rparr> [0x68, 0x69] None] Map.empty
     = (None, [(False, [''out'']) \<mapsto> Directory, (False, [''out'', ''docs'']) \<mapsto> Directory,
               (False, [''out'', ''docs'', ''a'']) \<mapsto> File 0x1B6 [0x68, 0x69]]) \<and>
   unzip_loop ''out''
       [\<lparr>zName = ''docs/a'', zMode = 0x1ED, zOpen = Inr ([0x68, 0x69], None)\<rparr>] Map.empty
     = (None, [(False, [''out'']) \<mapsto> Directory, (False, [''out'', ''docs'']) \<mapsto> Directory,
               (False, [''out'', ''docs'', ''a'']) \<mapsto> File 0x1ED [0x68, 0x69]])"
proof -
  define fsp :: fsys where "fsp = [(False, [''out'']) \<mapsto> Directory,
      (False, [''out'', ''docs'']) \<mapsto> Directory]"
  define h where "h = \<lparr>Name = ''docs/a'', Typeflag = TypeReg, Mode = 0x1ED\<rparr>"
  define f where "f = \<lparr>zName = ''docs/a'', zMode = 0x1ED, zOpen = Inr ([0x68 :: byte, 0x69], None :: error option)\<rparr>"
  have ty: "Typeflag h = TypeReg"
    by (simp add: h_def)
  have nd: "\<not> IsDir (zMode f)"
    by (simp add: f_def IsDir_def ModeDir_def)
  have t: "''out/docs/a'' = Join ''out'' (Name h)"
    by (simp add: h_def Join_out_docs_a)
  have tz: "''out/docs/a'' = Join ''out'' (zName f)"
    by (simp add: f_def Join_out_docs_a)
  have mk: "MkdirAll Map.empty (Dir ''out/docs/a'') ModePerm = (None, fsp)"
    unfolding fsp_def Dir_out_docs_a by (rule MkdirAll_out_docs)
  have lk: "lookup fsp (clean_key ''out/docs/a'') = None"
    by (simp add: fsp_def key_out_docs_a lookup_def)
  have cr: "os_Create fsp ''out/docs/a'' = Inr (fsp((False, [''out'', ''docs'', ''a'']) \<mapsto> File 0x1B6 []))"
    unfolding fsp_def by (rule os_Create_out_docs_a)
  have op: "os_OpenFile fsp ''out/docs/a'' (zMode f)
      = Inr (fsp((False, [''out'', ''docs'', ''a'']) \<mapsto> File 0x1ED []))"
    by (simp add: os_OpenFile_def key_out_docs_a lookup_def fsp_def f_def)
  have zo: "zOpen f = Inr ([0x68, 0x69], None)"
    by (simp add: f_def)
  note T = tar_mode_ignored_zip_mode_applied [of "''out''" "\<lambda>h. 0" "[]" Map.empty h "''out/docs/a''"
      None fsp _ "[0x68, 0x69]" f "''out/docs/a''" None fsp]
  have tar: "untar_loop ''out'' [Entry h [0x68, 0x69] None] Map.empty
      = (None, fsp(clean_key ''out/docs/a'' \<mapsto> File 0x1B6 [0x68, 0x69]))"
    by (rule mp [OF conjunct1 [OF conjunct2 [OF T]]]) (intro conjI, rule ty, rule t, rule mk, rule lk, rule cr)
  have zip: "unzip_loop ''out'' [f] Map.empty
      = (None, fsp(clean_key ''out/docs/a'' \<mapsto> File (zMode f) [0x68, 0x69]))"
    by (rule mp [OF conjunct2 [OF conjunct2 [OF T]]])
      (intro conjI, rule nd, rule tz, rule mk, rule lk, rule op, rule zo)
  from ty nd mk lk tar zip show ?thesis
    unfolding fsp_def h_def f_def by (simp add: key_out_docs_a)
qed

end
